theory Spec2Isabelle
  imports Main
begin

section \<open>Values, opcodes and chunks\<close>

text \<open>
  A \<open>Value\<close> is the variant over \<open>std::monostate\<close>, \<open>bool\<close>, \<open>double\<close> and
  \<open>std::string\<close> that the visitors of \<open>vm.hpp\<close> dispatch on. The payload type of
  a number is the type parameter \<open>'n\<close>, and the operations of \<open>double\<close> come in the
  record \<open>Double\<close>: every theorem below holds for whatever these operations are (IEEE-754
  arithmetic included), and none depends on a law of arithmetic.
\<close>

datatype 'n Value = VNil | VBool bool | VNumber 'n | VString string

record 'n Double =
  fadd :: "'n \<Rightarrow> 'n \<Rightarrow> 'n"
  fsub :: "'n \<Rightarrow> 'n \<Rightarrow> 'n"
  fmul :: "'n \<Rightarrow> 'n \<Rightarrow> 'n"
  fdiv :: "'n \<Rightarrow> 'n \<Rightarrow> 'n"
  fneg :: "'n \<Rightarrow> 'n"
  fgreater :: "'n \<Rightarrow> 'n \<Rightarrow> bool"
  fless :: "'n \<Rightarrow> 'n \<Rightarrow> bool"
  feq :: "'n \<Rightarrow> 'n \<Rightarrow> bool"
  stod :: "string \<Rightarrow> 'n option"
  fshow :: "'n \<Rightarrow> string"

text \<open>\<open>enum class OpCode : uint8_t\<close> of \<open>opcode.hpp\<close>, in declaration order.\<close>

datatype OpCode =
    CONSTANT | NIL | TRUE | FALSE | POP
  | DEFINE_GLOBAL | GET_GLOBAL | SET_GLOBAL
  | SET_LOCAL | GET_LOCAL
  | EQUAL | GREATER | LESS
  | ADD | SUBTRACT | MULTIPLY | DIVIDE
  | NEGATE | NOT | PRINT | RETURN

text \<open>\<open>static_cast<uint8_t>(op)\<close>: the enumerator's position.\<close>

fun opcode_byte :: "OpCode \<Rightarrow> nat" where
  "opcode_byte CONSTANT = 0"
| "opcode_byte NIL = 1"
| "opcode_byte TRUE = 2"
| "opcode_byte FALSE = 3"
| "opcode_byte POP = 4"
| "opcode_byte DEFINE_GLOBAL = 5"
| "opcode_byte GET_GLOBAL = 6"
| "opcode_byte SET_GLOBAL = 7"
| "opcode_byte SET_LOCAL = 8"
| "opcode_byte GET_LOCAL = 9"
| "opcode_byte EQUAL = 10"
| "opcode_byte GREATER = 11"
| "opcode_byte LESS = 12"
| "opcode_byte ADD = 13"
| "opcode_byte SUBTRACT = 14"
| "opcode_byte MULTIPLY = 15"
| "opcode_byte DIVIDE = 16"
| "opcode_byte NEGATE = 17"
| "opcode_byte NOT = 18"
| "opcode_byte PRINT = 19"
| "opcode_byte RETURN = 20"

text \<open>\<open>static_cast<OpCode>(byte)\<close>; a byte above 20 names no enumerator.\<close>

definition opcode_of :: "nat \<Rightarrow> OpCode option" where
  "opcode_of b =
     (if b = 0 then Some CONSTANT else if b = 1 then Some NIL
      else if b = 2 then Some TRUE else if b = 3 then Some FALSE
      else if b = 4 then Some POP else if b = 5 then Some DEFINE_GLOBAL
      else if b = 6 then Some GET_GLOBAL else if b = 7 then Some SET_GLOBAL
      else if b = 8 then Some SET_LOCAL else if b = 9 then Some GET_LOCAL
      else if b = 10 then Some EQUAL else if b = 11 then Some GREATER
      else if b = 12 then Some LESS else if b = 13 then Some ADD
      else if b = 14 then Some SUBTRACT else if b = 15 then Some MULTIPLY
      else if b = 16 then Some DIVIDE else if b = 17 then Some NEGATE
      else if b = 18 then Some NOT else if b = 19 then Some PRINT
      else if b = 20 then Some RETURN else None)"

text \<open>
  Modelled from the spec: \<open>chunk.hpp\<close> is not among the sources. The spec gives a chunk
  as the byte vector \<open>code\<close>, the vector \<open>lines\<close> with one source line per byte, and the
  constant pool; \<open>write\<close> (here \<open>write_chunk\<close>) appends one byte with its line, \<open>addConstant\<close> appends a
  value and returns its index. Bytes are naturals below 256; the casts to \<open>uint8_t\<close>
  are written out where the source has them.
\<close>

record 'n Chunk =
  code :: "nat list"
  lines :: "nat list"
  constants :: "'n Value list"

definition emptyChunk :: "'n Chunk" where
  "emptyChunk = \<lparr>code = [], lines = [], constants = []\<rparr>"

definition write_chunk :: "nat \<Rightarrow> nat \<Rightarrow> 'n Chunk \<Rightarrow> 'n Chunk" where
  "write_chunk byte ln ch = ch\<lparr>code := code ch @ [byte], lines := lines ch @ [ln]\<rparr>"

definition addConstant :: "'n Value \<Rightarrow> 'n Chunk \<Rightarrow> nat \<times> 'n Chunk" where
  "addConstant v ch = (length (constants ch), ch\<lparr>constants := constants ch @ [v]\<rparr>)"

text \<open>Decimal digits of a line number, as \<open>operator<<\<close> prints an integer.\<close>

fun show_nat :: "nat \<Rightarrow> string" where
  "show_nat n =
     (if n < 10 then [''0123456789'' ! n]
      else show_nat (n div 10) @ [''0123456789'' ! (n mod 10)])"

declare show_nat.simps [simp del]

definition newline :: char where
  "newline = CHR 0x0A"

definition quote :: char where
  "quote = CHR 0x27"

section \<open>Outcomes of a call\<close>

text \<open>
  What ends a call other than a return: an exception that leaves a \<open>noexcept\<close>
  function (\<open>std::terminate\<close>), a \<open>std::out_of_range\<close> that nothing catches, a call of
  an empty \<open>std::function\<close>, and an access outside an array (undefined behaviour in
  the source, a fault here).
\<close>

datatype fault = Terminate | OutOfRange | BadFunctionCall | Undefined

text \<open>
  The recursive-descent functions of the compiler take a bound on the depth of calls
  (loop iterations included); \<open>Timeout\<close> is the result of a call that needs more.
\<close>

datatype 'a res = Ok 'a | Fault fault | Timeout

definition res_bind :: "'a res \<Rightarrow> ('a \<Rightarrow> 'b res) \<Rightarrow> 'b res" where
  "res_bind m f = (case m of Ok a \<Rightarrow> f a | Fault e \<Rightarrow> Fault e | Timeout \<Rightarrow> Timeout)"

text \<open>A result approximates another when it is \<open>Timeout\<close> or the same result.\<close>

definition res_le :: "'a res \<Rightarrow> 'a res \<Rightarrow> bool" where
  "res_le r r' = (r = Timeout \<or> r' = r)"

section \<open>Tokens and the scanner interface\<close>

text \<open>
  Modelled from the spec: \<open>scanner.hpp\<close> is not among the sources. The spec gives a
  token as \<open>{kind, text, line}\<close> and the scanner as a lazy stream of tokens that an
  \<open>Eof\<close> token ends. The token kinds are the ones \<open>compiler.hpp\<close> names, in the
  order of the rows of \<open>getRule\<close>. A source text is represented by the tokens its
  scanner yields (\<open>pending\<close>) and the line of its end; once the tokens are consumed
  every call yields \<open>Eof\<close>.
\<close>

datatype TokenType =
    TLeftParen | TRightParen | TLeftBrace | TRightBrace | TComma | TDot | TMinus | TPlus
  | TSemicolon | TSlash | TStar | TBang | TBangEqual | TEqual | TEqualEqual
  | TGreater | TGreaterEqual | TLess | TLessEqual
  | TIdentifier | TString | TNumber
  | TAnd | TClass | TElse | TFalse | TFor | TFun | TIf | TNil | TOr
  | TPrint | TReturn | TSuper | TThis | TTrue | TVar | TWhile
  | TError | TEof

record Token =
  tok_type :: TokenType
  tok_text :: string
  tok_line :: nat

record Scanner =
  pending :: "Token list"
  eof_line :: nat

definition scanToken :: "Scanner \<Rightarrow> Token \<times> Scanner" where
  "scanToken sc =
     (case pending sc of
        [] \<Rightarrow> (\<lparr>tok_type = TEof, tok_text = [], tok_line = eof_line sc\<rparr>, sc)
      | t # ts \<Rightarrow> (t, sc\<lparr>pending := ts\<rparr>))"

section \<open>The compiler\<close>

text \<open>
  \<open>enum class Precedence : uint8_t\<close>: the enumerators are their values, so that
  \<open>Precedence(static_cast<int>(rule.precedence) + 1)\<close> is a successor and \<open>\<le>\<close>
  compares as the source does.
\<close>

type_synonym Precedence = nat

abbreviation (input) PNone :: Precedence where "PNone \<equiv> 0"
abbreviation (input) PAssignment :: Precedence where "PAssignment \<equiv> 1"
abbreviation (input) POr :: Precedence where "POr \<equiv> 2"
abbreviation (input) PAnd :: Precedence where "PAnd \<equiv> 3"
abbreviation (input) PEquality :: Precedence where "PEquality \<equiv> 4"
abbreviation (input) PComparison :: Precedence where "PComparison \<equiv> 5"
abbreviation (input) PTerm :: Precedence where "PTerm \<equiv> 6"
abbreviation (input) PFactor :: Precedence where "PFactor \<equiv> 7"
abbreviation (input) PUnary :: Precedence where "PUnary \<equiv> 8"
abbreviation (input) PCall :: Precedence where "PCall \<equiv> 9"
abbreviation (input) PPrimary :: Precedence where "PPrimary \<equiv> 10"

text \<open>
  A \<open>ParseFn\<close> is one of the seven closures that \<open>getRule\<close> builds, each calling the
  member function of its name; \<open>nullptr\<close> is \<open>None\<close>.
\<close>

datatype ParseFn =
  Fn_grouping | Fn_unary | Fn_binary | Fn_number | Fn_literal | Fn_string | Fn_variable

record ParseRule =
  prefix_rule :: "ParseFn option"
  infix_rule :: "ParseFn option"
  precedence :: Precedence

record Parser =
  current :: Token
  previous :: Token
  scanner :: Scanner
  hadError :: bool
  panicMode :: bool

record Local =
  name :: string
  depth :: int

text \<open>
  \<open>locals\<close> is the array \<open>std::array<Local, UINT8_COUNT>\<close> as a store from index to
  entry; \<open>localCount\<close> (an \<open>int\<close> that is never negative) and \<open>scopeDepth\<close> (a
  \<open>size_t\<close>) are naturals. \<open>UINT8_COUNT\<close> is declared outside the sources; the spec
  gives the capacity 256.
\<close>

definition UINT8_COUNT :: nat where
  "UINT8_COUNT = 256"

definition UINT8_MAX :: nat where
  "UINT8_MAX = 255"

record Compiler =
  locals :: "nat \<Rightarrow> Local"
  localCount :: nat
  scopeDepth :: nat

text \<open>
  \<open>cerr\<close> is the text written to \<open>std::cerr\<close> so far. The stream is global in the
  source; it is carried by the compilation state, which the virtual machine owns.
\<close>

record 'n Compilation =
  compilingChunk :: "'n Chunk"
  compiler :: Compiler
  parser :: Parser
  cerr :: string

definition errorAt :: "Token \<Rightarrow> string \<Rightarrow> 'n Compilation \<Rightarrow> 'n Compilation" where
  "errorAt token message c =
     (if panicMode (parser c) then c
      else c\<lparr>parser := (parser c)\<lparr>panicMode := True, hadError := True\<rparr>,
              cerr := cerr c @ ''[line '' @ show_nat (tok_line token) @ ''] Error''
                @ (if tok_type token = TEof then '' at end''
                   else if tok_type token = TError then []
                   else '' at '' @ tok_text token)
                @ '': '' @ message @ [newline]\<rparr>)"

definition errorAtCurrent :: "string \<Rightarrow> 'n Compilation \<Rightarrow> 'n Compilation" where
  "errorAtCurrent message c = errorAt (current (parser c)) message c"

definition error :: "string \<Rightarrow> 'n Compilation \<Rightarrow> 'n Compilation" where
  "error message c = errorAt (previous (parser c)) message c"

text \<open>The loop of \<open>Parser::advance\<close>: scan until a token that is not an \<open>Error\<close> token.\<close>

function advance_loop :: "'n Compilation \<Rightarrow> 'n Compilation" where
  "advance_loop c =
     (let (t, sc) = scanToken (scanner (parser c));
          c1 = c\<lparr>parser := (parser c)\<lparr>current := t, scanner := sc\<rparr>\<rparr>
      in if tok_type t \<noteq> TError then c1
         else advance_loop (errorAtCurrent (tok_text t) c1))"
  by pat_completeness auto
termination
  by (relation "measure (\<lambda>c. length (pending (scanner (parser c))))")
     (auto simp: scanToken_def errorAtCurrent_def errorAt_def split: list.splits)

declare advance_loop.simps [simp del]

definition advance :: "'n Compilation \<Rightarrow> 'n Compilation" where
  "advance c = advance_loop (c\<lparr>parser := (parser c)\<lparr>previous := current (parser c)\<rparr>\<rparr>)"

definition consume :: "TokenType \<Rightarrow> string \<Rightarrow> 'n Compilation \<Rightarrow> 'n Compilation" where
  "consume ty message c =
     (if tok_type (current (parser c)) = ty then advance c
      else errorAtCurrent message c)"

definition check :: "TokenType \<Rightarrow> 'n Compilation \<Rightarrow> bool" where
  "check ty c = (tok_type (current (parser c)) = ty)"

definition match :: "TokenType \<Rightarrow> 'n Compilation \<Rightarrow> bool \<times> 'n Compilation" where
  "match ty c = (if \<not> check ty c then (False, c) else (True, advance c))"

definition emitByte :: "nat \<Rightarrow> 'n Compilation \<Rightarrow> 'n Compilation" where
  "emitByte byte c =
     c\<lparr>compilingChunk := write_chunk byte (tok_line (previous (parser c))) (compilingChunk c)\<rparr>"

definition emitOp :: "OpCode \<Rightarrow> 'n Compilation \<Rightarrow> 'n Compilation" where
  "emitOp op c = emitByte (opcode_byte op) c"

definition emitBytes :: "nat \<Rightarrow> nat \<Rightarrow> 'n Compilation \<Rightarrow> 'n Compilation" where
  "emitBytes byte1 byte2 c = emitByte byte2 (emitByte byte1 c)"

definition emitOps :: "OpCode \<Rightarrow> OpCode \<Rightarrow> 'n Compilation \<Rightarrow> 'n Compilation" where
  "emitOps op1 op2 c = emitOp op2 (emitOp op1 c)"

definition emitReturn :: "'n Compilation \<Rightarrow> 'n Compilation" where
  "emitReturn c = emitOp RETURN c"

definition endCompiler :: "'n Compilation \<Rightarrow> 'n Compilation" where
  "endCompiler c = emitReturn c"

text \<open>
  \<open>makeConstant\<close> casts the index that \<open>addConstant\<close> returns to \<open>uint8_t\<close> and
  then compares the byte with \<open>UINT8_MAX\<close>.
\<close>

definition makeConstant :: "'n Value \<Rightarrow> 'n Compilation \<Rightarrow> nat \<times> 'n Compilation" where
  "makeConstant v c =
     (let (idx, ch) = addConstant v (compilingChunk c);
          c1 = c\<lparr>compilingChunk := ch\<rparr>;
          constant = idx mod 256
      in if constant > UINT8_MAX
         then (0, error ''Too many constants in one chunk'' c1)
         else (constant, c1))"

definition emitConstant :: "'n Value \<Rightarrow> 'n Compilation \<Rightarrow> 'n Compilation" where
  "emitConstant v c =
     (let (constant, c1) = makeConstant v c
      in emitBytes (opcode_byte CONSTANT) constant c1)"

text \<open>\<open>number\<close> is \<open>noexcept\<close>: a lexeme that \<open>std::stod\<close> rejects ends the process.\<close>

definition number :: "'n Double \<Rightarrow> 'n Compilation \<Rightarrow> 'n Compilation res" where
  "number ops c =
     (case stod ops (tok_text (previous (parser c))) of
        None \<Rightarrow> Fault Terminate
      | Some d \<Rightarrow> Ok (emitConstant (VNumber d) c))"

definition literal :: "'n Compilation \<Rightarrow> 'n Compilation" where
  "literal c =
     (case tok_type (previous (parser c)) of
        TFalse \<Rightarrow> emitOp FALSE c
      | TNil \<Rightarrow> emitOp NIL c
      | TTrue \<Rightarrow> emitOp TRUE c
      | _ \<Rightarrow> c)"

text \<open>\<open>remove_prefix(1)\<close> and \<open>remove_suffix(1)\<close> need a lexeme of two characters.\<close>

definition string_rule :: "'n Compilation \<Rightarrow> 'n Compilation res" where
  "string_rule c =
     (let str = tok_text (previous (parser c))
      in if length str < 2 then Fault Undefined
         else Ok (emitConstant (VString (butlast (tl str))) c))"

definition identifiersEqual :: "string \<Rightarrow> string \<Rightarrow> bool" where
  "identifiersEqual str1 str2 = (str1 = str2)"

text \<open>
  The loop of \<open>resolveLocal\<close>, from index \<open>i\<close> down to 0; the first argument is
  \<open>i + 1\<close>. The result \<open>-1\<close> says that no local has the name.
\<close>

fun resolveLocal_loop :: "nat \<Rightarrow> 'n Compilation \<Rightarrow> int \<times> 'n Compilation" where
  "resolveLocal_loop 0 c = (-1, c)"
| "resolveLocal_loop (Suc i) c =
     (let local = locals (compiler c) i
      in if identifiersEqual (tok_text (previous (parser c))) (name local)
         then (int i,
               if depth local = -1
               then error (''Can'' @ [quote] @ ''t read local variable in its own initializer.'') c
               else c)
         else resolveLocal_loop i c)"

definition resolveLocal :: "'n Compilation \<Rightarrow> int \<times> 'n Compilation" where
  "resolveLocal c = resolveLocal_loop (localCount (compiler c)) c"

definition identifierConstant :: "'n Compilation \<Rightarrow> nat \<times> 'n Compilation" where
  "identifierConstant c = makeConstant (VString (tok_text (previous (parser c)))) c"

text \<open>An \<open>int\<close> compared with a \<open>size_t\<close> is converted to \<open>size_t\<close> first.\<close>

definition to_size_t :: "int \<Rightarrow> nat" where
  "to_size_t i = nat (i mod 2 ^ 64)"

definition addLocal :: "string \<Rightarrow> 'n Compilation \<Rightarrow> 'n Compilation" where
  "addLocal nm c =
     (if localCount (compiler c) = UINT8_COUNT
      then error ''Too many local variables declared in function.'' c
      else c\<lparr>compiler := (compiler c)\<lparr>
             locals := (locals (compiler c))
                (localCount (compiler c) := \<lparr>name = nm, depth = -1\<rparr>),
             localCount := localCount (compiler c) + 1\<rparr>\<rparr>)"

text \<open>The loop of \<open>declareVariable\<close>, from index \<open>i\<close> down to 0; the first argument is \<open>i + 1\<close>.\<close>

fun declareVariable_loop :: "nat \<Rightarrow> string \<Rightarrow> 'n Compilation \<Rightarrow> 'n Compilation" where
  "declareVariable_loop 0 nm c = c"
| "declareVariable_loop (Suc i) nm c =
     (let local = locals (compiler c) i
      in if depth local \<noteq> -1 \<and> to_size_t (depth local) < scopeDepth (compiler c) then c
         else declareVariable_loop i nm
                (if identifiersEqual nm (name local)
                 then error ''Re-definition of an existing variable in this scope.'' c
                 else c))"

definition declareVariable :: "'n Compilation \<Rightarrow> 'n Compilation" where
  "declareVariable c =
     (if scopeDepth (compiler c) = 0 then c
      else let nm = tok_text (previous (parser c))
           in addLocal nm (declareVariable_loop (localCount (compiler c)) nm c))"

definition parseVariable :: "string \<Rightarrow> 'n Compilation \<Rightarrow> nat \<times> 'n Compilation" where
  "parseVariable message c =
     (let c1 = declareVariable (consume TIdentifier message c)
      in if scopeDepth (compiler c1) > 0 then (0, c1) else identifierConstant c1)"

text \<open>\<open>locals[localCount - 1]\<close> is outside the array when there is no local.\<close>

definition markInitialized :: "'n Compilation \<Rightarrow> 'n Compilation res" where
  "markInitialized c =
     (if localCount (compiler c) = 0 then Fault Undefined
      else Ok (c\<lparr>compiler := (compiler c)\<lparr>
             locals := (locals (compiler c))
                (localCount (compiler c) - 1 :=
                   (locals (compiler c) (localCount (compiler c) - 1))
                     \<lparr>depth := int (scopeDepth (compiler c))\<rparr>)\<rparr>\<rparr>))"

definition defineVariable :: "nat \<Rightarrow> 'n Compilation \<Rightarrow> 'n Compilation res" where
  "defineVariable global c =
     (if scopeDepth (compiler c) > 0 then markInitialized c
      else Ok (emitBytes (opcode_byte DEFINE_GLOBAL) global c))"

definition beginScope :: "'n Compilation \<Rightarrow> 'n Compilation" where
  "beginScope c =
     c\<lparr>compiler := (compiler c)\<lparr>scopeDepth := (scopeDepth (compiler c) + 1) mod 2 ^ 64\<rparr>\<rparr>"

function endScope_loop :: "'n Compilation \<Rightarrow> 'n Compilation" where
  "endScope_loop c =
     (if localCount (compiler c) > 0
         \<and> to_size_t (depth (locals (compiler c) (localCount (compiler c) - 1)))
             > scopeDepth (compiler c)
      then endScope_loop
             ((emitOp POP c)\<lparr>compiler := (compiler c)\<lparr>localCount := localCount (compiler c) - 1\<rparr>\<rparr>)
      else c)"
  by pat_completeness auto
termination
  by (relation "measure (\<lambda>c. localCount (compiler c))")
     (auto simp: emitOp_def emitByte_def)

declare endScope_loop.simps [simp del]

definition endScope :: "'n Compilation \<Rightarrow> 'n Compilation" where
  "endScope c =
     endScope_loop
       (c\<lparr>compiler := (compiler c)\<lparr>scopeDepth := (scopeDepth (compiler c) + 2 ^ 64 - 1) mod 2 ^ 64\<rparr>\<rparr>)"

definition getRule :: "TokenType \<Rightarrow> ParseRule" where
  "getRule ty =
     (case ty of
        TLeftParen \<Rightarrow> \<lparr>prefix_rule = Some Fn_grouping, infix_rule = None, precedence = PNone\<rparr>
      | TMinus \<Rightarrow> \<lparr>prefix_rule = Some Fn_unary, infix_rule = Some Fn_binary, precedence = PTerm\<rparr>
      | TPlus \<Rightarrow> \<lparr>prefix_rule = None, infix_rule = Some Fn_binary, precedence = PTerm\<rparr>
      | TSlash \<Rightarrow> \<lparr>prefix_rule = None, infix_rule = Some Fn_binary, precedence = PFactor\<rparr>
      | TStar \<Rightarrow> \<lparr>prefix_rule = None, infix_rule = Some Fn_binary, precedence = PFactor\<rparr>
      | TBang \<Rightarrow> \<lparr>prefix_rule = Some Fn_unary, infix_rule = None, precedence = PNone\<rparr>
      | TBangEqual \<Rightarrow> \<lparr>prefix_rule = None, infix_rule = Some Fn_binary, precedence = PEquality\<rparr>
      | TEqualEqual \<Rightarrow> \<lparr>prefix_rule = None, infix_rule = Some Fn_binary, precedence = PEquality\<rparr>
      | TGreater \<Rightarrow> \<lparr>prefix_rule = None, infix_rule = Some Fn_binary, precedence = PComparison\<rparr>
      | TGreaterEqual \<Rightarrow> \<lparr>prefix_rule = None, infix_rule = Some Fn_binary, precedence = PComparison\<rparr>
      | TLess \<Rightarrow> \<lparr>prefix_rule = None, infix_rule = Some Fn_binary, precedence = PComparison\<rparr>
      | TLessEqual \<Rightarrow> \<lparr>prefix_rule = None, infix_rule = Some Fn_binary, precedence = PComparison\<rparr>
      | TIdentifier \<Rightarrow> \<lparr>prefix_rule = Some Fn_variable, infix_rule = None, precedence = PNone\<rparr>
      | TString \<Rightarrow> \<lparr>prefix_rule = Some Fn_string, infix_rule = None, precedence = PNone\<rparr>
      | TNumber \<Rightarrow> \<lparr>prefix_rule = Some Fn_number, infix_rule = None, precedence = PNone\<rparr>
      | TFalse \<Rightarrow> \<lparr>prefix_rule = Some Fn_literal, infix_rule = None, precedence = PNone\<rparr>
      | TNil \<Rightarrow> \<lparr>prefix_rule = Some Fn_literal, infix_rule = None, precedence = PNone\<rparr>
      | TTrue \<Rightarrow> \<lparr>prefix_rule = Some Fn_literal, infix_rule = None, precedence = PNone\<rparr>
      | _ \<Rightarrow> \<lparr>prefix_rule = None, infix_rule = None, precedence = PNone\<rparr>)"

text \<open>
  The loop of \<open>synchronize\<close>. Each round advances, so the tokens still to come get
  fewer until the current token is \<open>Eof\<close>.
\<close>

definition to_come :: "'n Compilation \<Rightarrow> nat" where
  "to_come c =
     length (pending (scanner (parser c)))
       + (if tok_type (current (parser c)) = TEof then 0 else 1)"

lemma errorAtCurrent_scanner:
  "scanner (parser (errorAtCurrent m c)) = scanner (parser c)"
  by (simp add: errorAtCurrent_def errorAt_def)

lemma advance_loop_to_come:
  "to_come (advance_loop c) \<le> length (pending (scanner (parser c)))"
proof (induction c rule: advance_loop.induct)
  case (1 c)
  show ?case
  proof (cases "pending (scanner (parser c))")
    case Nil
    then show ?thesis
      by (subst advance_loop.simps) (simp add: scanToken_def to_come_def)
  next
    case (Cons t ts)
    define sc where "sc = (scanner (parser c))\<lparr>pending := ts\<rparr>"
    define c1 where "c1 = c\<lparr>parser := (parser c)\<lparr>current := t, scanner := sc\<rparr>\<rparr>"
    have scan: "scanToken (scanner (parser c)) = (t, sc)"
      using Cons by (simp add: scanToken_def sc_def)
    show ?thesis
    proof (cases "tok_type t = TError")
      case False
      have "advance_loop c = c1"
        using scan False by (subst advance_loop.simps) (simp add: c1_def)
      then show ?thesis
        using Cons by (simp add: c1_def sc_def to_come_def)
    next
      case True
      have step: "advance_loop c = advance_loop (errorAtCurrent (tok_text t) c1)"
        using scan True by (subst advance_loop.simps) (simp add: c1_def)
      have "to_come (advance_loop (errorAtCurrent (tok_text t) c1))
            \<le> length (pending (scanner (parser (errorAtCurrent (tok_text t) c1))))"
        using "1.IH" [OF refl scan [symmetric] c1_def] True by simp
      also have "\<dots> = length ts"
        by (simp add: errorAtCurrent_scanner c1_def sc_def)
      finally show ?thesis
        using step Cons by simp
    qed
  qed
qed

lemma advance_to_come:
  "tok_type (current (parser c)) \<noteq> TEof \<Longrightarrow> to_come (advance c) < to_come c"
proof -
  assume ne: "tok_type (current (parser c)) \<noteq> TEof"
  have "to_come (advance c) \<le> length (pending (scanner (parser c)))"
    using advance_loop_to_come [of "c\<lparr>parser := (parser c)\<lparr>previous := current (parser c)\<rparr>\<rparr>"]
    by (simp add: advance_def)
  with ne show ?thesis by (simp add: to_come_def)
qed

function synchronize_loop :: "'n Compilation \<Rightarrow> 'n Compilation" where
  "synchronize_loop c =
     (if tok_type (current (parser c)) \<noteq> TEof then
        if tok_type (previous (parser c)) = TSemicolon then c
        else if tok_type (current (parser c)) \<in>
                  {TClass, TFun, TVar, TFor, TIf, TWhile, TPrint, TReturn} then c
        else synchronize_loop (advance c)
      else c)"
  by pat_completeness auto
termination
  by (relation "measure to_come") (auto intro: advance_to_come)

declare synchronize_loop.simps [simp del]

definition synchronize :: "'n Compilation \<Rightarrow> 'n Compilation" where
  "synchronize c = synchronize_loop (c\<lparr>parser := (parser c)\<lparr>panicMode := False\<rparr>\<rparr>)"

text \<open>
  The recursive descent. The member functions of \<open>Compilation\<close> that call each other
  are named by a \<open>call\<close>; \<open>Block\<close> and \<open>ParsePrecedence_loop\<close> are the \<open>while\<close>
  loops of \<open>block\<close> and \<open>parsePrecedence\<close>, and \<open>Invoke\<close> is the call of a
  \<open>ParseFn\<close>. The body of each function is a definition of its own, in which \<open>rec\<close>
  stands for a call of a member function; \<open>descent\<close> ties the knot with a bound on
  the depth of calls.
\<close>

datatype call =
    Declaration | VarDeclaration | Statement | Block | PrintStatement | ExpressionStatement
  | Expression | ParsePrecedence Precedence | ParsePrecedence_loop Precedence bool
  | Invoke ParseFn bool | Grouping | Unary | Binary | Variable bool | NamedVariable bool

type_synonym 'n descend = "call \<Rightarrow> 'n Compilation \<Rightarrow> 'n Compilation res"

definition declaration_body :: "'n descend \<Rightarrow> 'n Compilation \<Rightarrow> 'n Compilation res" where
  "declaration_body rec c =
     res_bind
       (let (m, c1) = match TVar c
        in if m then rec VarDeclaration c1 else rec Statement c1)
       (\<lambda>c2. Ok (if panicMode (parser c2) then synchronize c2 else c2))"

definition varDeclaration_body :: "'n descend \<Rightarrow> 'n Compilation \<Rightarrow> 'n Compilation res" where
  "varDeclaration_body rec c =
     (let (global, c1) = parseVariable ''Expect variable name.'' c;
          (m, c2) = match TEqual c1
      in res_bind (if m then rec Expression c2 else Ok (emitOp NIL c2))
           (\<lambda>c3. defineVariable global
                    (consume TSemicolon
                       (''Expect '' @ [quote] @ '';'' @ [quote] @ '' after variable declaration.'')
                       c3)))"

definition statement_body :: "'n descend \<Rightarrow> 'n Compilation \<Rightarrow> 'n Compilation res" where
  "statement_body rec c =
     (let (m, c1) = match TPrint c
      in if m then rec PrintStatement c1
         else let (m2, c2) = match TLeftBrace c1
              in if m2 then res_bind (rec Block (beginScope c2)) (\<lambda>c3. Ok (endScope c3))
                 else rec ExpressionStatement c2)"

definition block_body :: "'n descend \<Rightarrow> 'n Compilation \<Rightarrow> 'n Compilation res" where
  "block_body rec c =
     (if \<not> check TRightBrace c \<and> \<not> check TEof c
      then res_bind (rec Declaration c) (rec Block)
      else Ok (consume TRightBrace
                 (''Expect '' @ [quote] @ ''}'' @ [quote] @ '': no matching token found.'') c))"

definition printStatement_body :: "'n descend \<Rightarrow> 'n Compilation \<Rightarrow> 'n Compilation res" where
  "printStatement_body rec c =
     res_bind (rec Expression c)
       (\<lambda>c1. Ok (emitOp PRINT
                   (consume TSemicolon
                      (''Expected '' @ [quote] @ '';'' @ [quote] @ '' after value.'') c1)))"

definition expressionStatement_body :: "'n descend \<Rightarrow> 'n Compilation \<Rightarrow> 'n Compilation res" where
  "expressionStatement_body rec c =
     res_bind (rec Expression c)
       (\<lambda>c1. Ok (emitOp POP
                   (consume TSemicolon
                      (''Expect '' @ [quote] @ '';'' @ [quote] @ '' after expression.'') c1)))"

definition expression_body :: "'n descend \<Rightarrow> 'n Compilation \<Rightarrow> 'n Compilation res" where
  "expression_body rec c = rec (ParsePrecedence PAssignment) c"

definition parsePrecedence_body ::
  "'n descend \<Rightarrow> Precedence \<Rightarrow> 'n Compilation \<Rightarrow> 'n Compilation res" where
  "parsePrecedence_body rec prec c =
     (let c1 = advance c;
          ty = tok_type (previous (parser c1))
      in case prefix_rule (getRule ty) of
           None \<Rightarrow> Ok (error ''Expected expression.'' c1)
         | Some prefixRule \<Rightarrow>
             (let canAssign = (prec \<le> PAssignment)
              in res_bind (rec (Invoke prefixRule canAssign) c1)
                   (\<lambda>c2. res_bind (rec (ParsePrecedence_loop prec canAssign) c2)
                      (\<lambda>c3. if canAssign
                             then (let (m, c4) = match TEqual c3
                                   in Ok (if m then error ''Invalid assignment target.'' c4
                                          else c4))
                             else Ok c3))))"

definition parsePrecedence_loop_body ::
  "'n descend \<Rightarrow> Precedence \<Rightarrow> bool \<Rightarrow> 'n Compilation \<Rightarrow> 'n Compilation res" where
  "parsePrecedence_loop_body rec prec canAssign c =
     (if prec \<le> precedence (getRule (tok_type (current (parser c))))
      then (let c1 = advance c
            in case infix_rule (getRule (tok_type (previous (parser c1)))) of
                 None \<Rightarrow> Fault BadFunctionCall
               | Some infixRule \<Rightarrow>
                   res_bind (rec (Invoke infixRule canAssign) c1)
                     (rec (ParsePrecedence_loop prec canAssign)))
      else Ok c)"

definition invoke_body ::
  "'n descend \<Rightarrow> 'n Double \<Rightarrow> ParseFn \<Rightarrow> bool \<Rightarrow> 'n Compilation \<Rightarrow> 'n Compilation res" where
  "invoke_body rec ops fn canAssign c =
     (case fn of
        Fn_grouping \<Rightarrow> rec Grouping c
      | Fn_unary \<Rightarrow> rec Unary c
      | Fn_binary \<Rightarrow> rec Binary c
      | Fn_number \<Rightarrow> number ops c
      | Fn_literal \<Rightarrow> Ok (literal c)
      | Fn_string \<Rightarrow> string_rule c
      | Fn_variable \<Rightarrow> rec (Variable canAssign) c)"

definition grouping_body :: "'n descend \<Rightarrow> 'n Compilation \<Rightarrow> 'n Compilation res" where
  "grouping_body rec c =
     res_bind (rec Expression c)
       (\<lambda>c1. Ok (consume TRightParen
                   (''Expect '' @ [quote] @ '')'' @ [quote] @ '' after expression.'') c1))"

definition unary_body :: "'n descend \<Rightarrow> 'n Compilation \<Rightarrow> 'n Compilation res" where
  "unary_body rec c =
     (let operatorType = tok_type (previous (parser c))
      in res_bind (rec (ParsePrecedence PUnary) c)
           (\<lambda>c1. Ok (case operatorType of
                       TMinus \<Rightarrow> emitOp NEGATE c1
                     | TBang \<Rightarrow> emitOp NOT c1
                     | _ \<Rightarrow> c1)))"

definition binary_body :: "'n descend \<Rightarrow> 'n Compilation \<Rightarrow> 'n Compilation res" where
  "binary_body rec c =
     (let operatorType = tok_type (previous (parser c));
          rule = getRule operatorType
      in res_bind (rec (ParsePrecedence ((precedence rule + 1) mod 256)) c)
           (\<lambda>c1. Ok (case operatorType of
                       TBangEqual \<Rightarrow> emitOps EQUAL NOT c1
                     | TEqualEqual \<Rightarrow> emitOp EQUAL c1
                     | TGreater \<Rightarrow> emitOp GREATER c1
                     | TGreaterEqual \<Rightarrow> emitOps LESS NOT c1
                     | TLess \<Rightarrow> emitOp LESS c1
                     | TLessEqual \<Rightarrow> emitOps GREATER NOT c1
                     | TPlus \<Rightarrow> emitOp ADD c1
                     | TMinus \<Rightarrow> emitOp SUBTRACT c1
                     | TStar \<Rightarrow> emitOp MULTIPLY c1
                     | TSlash \<Rightarrow> emitOp DIVIDE c1
                     | _ \<Rightarrow> c1)))"

definition variable_body :: "'n descend \<Rightarrow> bool \<Rightarrow> 'n Compilation \<Rightarrow> 'n Compilation res" where
  "variable_body rec canAssign c = rec (NamedVariable canAssign) c"

definition namedVariable_body ::
  "'n descend \<Rightarrow> bool \<Rightarrow> 'n Compilation \<Rightarrow> 'n Compilation res" where
  "namedVariable_body rec canAssign c =
     (let (arg, c1) = resolveLocal c;
          (getOp, setOp, arg2, c2) =
            (if arg \<noteq> -1 then (GET_LOCAL, SET_LOCAL, arg, c1)
             else (let (k, c') = identifierConstant c1
                   in (GET_GLOBAL, SET_GLOBAL, int k, c')));
          (m, c3) = (if canAssign then match TEqual c2 else (False, c2))
      in if m
         then res_bind (rec Expression c3)
                (\<lambda>c4. Ok (emitBytes (opcode_byte setOp) (nat (arg2 mod 256)) c4))
         else Ok (emitBytes (opcode_byte getOp) (nat (arg2 mod 256)) c3))"

definition descent_body :: "'n descend \<Rightarrow> 'n Double \<Rightarrow> 'n descend" where
  "descent_body rec ops k c =
     (case k of
        Declaration \<Rightarrow> declaration_body rec c
      | VarDeclaration \<Rightarrow> varDeclaration_body rec c
      | Statement \<Rightarrow> statement_body rec c
      | Block \<Rightarrow> block_body rec c
      | PrintStatement \<Rightarrow> printStatement_body rec c
      | ExpressionStatement \<Rightarrow> expressionStatement_body rec c
      | Expression \<Rightarrow> expression_body rec c
      | ParsePrecedence prec \<Rightarrow> parsePrecedence_body rec prec c
      | ParsePrecedence_loop prec canAssign \<Rightarrow> parsePrecedence_loop_body rec prec canAssign c
      | Invoke fn canAssign \<Rightarrow> invoke_body rec ops fn canAssign c
      | Grouping \<Rightarrow> grouping_body rec c
      | Unary \<Rightarrow> unary_body rec c
      | Binary \<Rightarrow> binary_body rec c
      | Variable canAssign \<Rightarrow> variable_body rec canAssign c
      | NamedVariable canAssign \<Rightarrow> namedVariable_body rec canAssign c)"

primrec descent :: "nat \<Rightarrow> 'n Double \<Rightarrow> 'n descend" where
  "descent 0 ops = (\<lambda>k c. Timeout)"
| "descent (Suc n) ops = descent_body (descent n ops) ops"

definition declaration_st :: "nat \<Rightarrow> 'n Double \<Rightarrow> 'n Compilation \<Rightarrow> 'n Compilation res" where
  "declaration_st n ops c = descent n ops Declaration c"

text \<open>The loop of \<open>compile\<close>: declarations until \<open>Eof\<close> is matched.\<close>

fun compile_loop :: "nat \<Rightarrow> 'n Double \<Rightarrow> 'n Compilation \<Rightarrow> 'n Compilation res" where
  "compile_loop 0 ops c = Timeout"
| "compile_loop (Suc n) ops c =
     (let (m, c1) = match TEof c
      in if m then Ok c1
         else res_bind (declaration_st n ops c1) (compile_loop n ops))"

text \<open>
  \<open>Parser(source)\<close> leaves \<open>current\<close> and \<open>previous\<close> without a value; no token is
  read from them before \<open>advance\<close> has filled both.
\<close>

definition new_Parser :: "Scanner \<Rightarrow> Parser" where
  "new_Parser source =
     \<lparr>current = \<lparr>tok_type = TEof, tok_text = [], tok_line = 0\<rparr>,
      previous = \<lparr>tok_type = TEof, tok_text = [], tok_line = 0\<rparr>,
      scanner = source, hadError = False, panicMode = False\<rparr>"

definition compile ::
  "nat \<Rightarrow> 'n Double \<Rightarrow> Scanner \<Rightarrow> 'n Chunk \<Rightarrow> 'n Compilation \<Rightarrow> (bool \<times> 'n Compilation) res"
where
  "compile n ops source chunk c =
     res_bind
       (compile_loop n ops (advance (c\<lparr>parser := new_Parser source, compilingChunk := chunk\<rparr>)))
       (\<lambda>c1. let c2 = endCompiler c1 in Ok (\<not> hadError (parser c2), c2))"

section \<open>The virtual machine\<close>

datatype InterpretResult = OK | COMPILE_ERROR | RUNTIME_ERROR

text \<open>
  The operand stack is the live part of \<open>std::array<Value, STACK_MAX>\<close>, top first:
  \<open>stackTop[-1 - offset]\<close> is element \<open>offset\<close> of the list, and the slot at absolute
  index \<open>i\<close> from the stack base is element \<open>i\<close> of the reversed list. \<open>ip\<close> points
  to the code of \<open>mChunk\<close>. \<open>cout\<close> is the text written to \<open>std::cout\<close> so far;
  \<open>std::cerr\<close> is the \<open>cerr\<close> of \<open>cu\<close>.
\<close>

definition STACK_MAX :: nat where
  "STACK_MAX = 256"

record 'n VM =
  mChunk :: "'n Chunk"
  pos :: nat
  stack :: "'n Value list"
  cu :: "'n Compilation"
  globals :: "string \<rightharpoonup> 'n Value"
  cout :: string

text \<open>
  A member function of the virtual machine returns its result, or the fault that ended
  it, together with the state it leaves.
\<close>

type_synonym ('n, 'a) vm_fn = "'n VM \<Rightarrow> (fault + 'a) \<times> 'n VM"

definition vm_bind :: "('n, 'a) vm_fn \<Rightarrow> ('a \<Rightarrow> ('n, 'b) vm_fn) \<Rightarrow> ('n, 'b) vm_fn" where
  "vm_bind m f vm = (case m vm of (Inl e, vm1) \<Rightarrow> (Inl e, vm1) | (Inr a, vm1) \<Rightarrow> f a vm1)"

definition vm_return :: "'a \<Rightarrow> ('n, 'a) vm_fn" where
  "vm_return a vm = (Inr a, vm)"

text \<open>\<open>at(pos++)\<close> in a \<open>noexcept\<close> function.\<close>

definition readByte :: "('n, nat) vm_fn" where
  "readByte vm =
     (if pos vm < length (code (mChunk vm))
      then (Inr (code (mChunk vm) ! pos vm), vm\<lparr>pos := pos vm + 1\<rparr>)
      else (Inl Terminate, vm\<lparr>pos := pos vm + 1\<rparr>))"

definition readConstant :: "('n, 'n Value) vm_fn" where
  "readConstant =
     vm_bind readByte (\<lambda>b vm.
       if b < length (constants (mChunk vm)) then (Inr (constants (mChunk vm) ! b), vm)
       else (Inl Terminate, vm))"

definition readString :: "('n, string) vm_fn" where
  "readString =
     vm_bind readConstant (\<lambda>v vm.
       case v of VString s \<Rightarrow> (Inr s, vm) | _ \<Rightarrow> (Inl Terminate, vm))"

definition resetStack :: "'n VM \<Rightarrow> 'n VM" where
  "resetStack vm = vm\<lparr>stack := []\<rparr>"

definition push :: "'n Value \<Rightarrow> ('n, unit) vm_fn" where
  "push v vm =
     (if length (stack vm) < STACK_MAX then (Inr (), vm\<lparr>stack := v # stack vm\<rparr>)
      else (Inl Undefined, vm))"

definition pop :: "('n, 'n Value) vm_fn" where
  "pop vm =
     (case stack vm of
        [] \<Rightarrow> (Inl Undefined, vm)
      | v # st \<Rightarrow> (Inr v, vm\<lparr>stack := st\<rparr>))"

definition peek :: "nat \<Rightarrow> ('n, 'n Value) vm_fn" where
  "peek offset vm =
     (if offset < length (stack vm) then (Inr (stack vm ! offset), vm)
      else (Inl Undefined, vm))"

text \<open>\<open>FalseyVistor\<close>: \<open>!b\<close> for a \<open>bool\<close>, \<open>true\<close> for \<open>std::monostate\<close>, and the
  template, which takes every other alternative, \<open>true\<close>.\<close>

fun isFalsey :: "'n Value \<Rightarrow> bool" where
  "isFalsey (VBool b) = (\<not> b)"
| "isFalsey VNil = True"
| "isFalsey (VNumber d) = True"
| "isFalsey (VString s) = True"

text \<open>\<open>operator==\<close> of \<open>std::variant\<close>: the same alternative and equal payloads.\<close>

fun valuesEqual :: "'n Double \<Rightarrow> 'n Value \<Rightarrow> 'n Value \<Rightarrow> bool" where
  "valuesEqual ops VNil VNil = True"
| "valuesEqual ops (VBool a) (VBool b) = (a = b)"
| "valuesEqual ops (VNumber a) (VNumber b) = feq ops a b"
| "valuesEqual ops (VString a) (VString b) = (a = b)"
| "valuesEqual ops a b = False"

text \<open>
  Modelled from the spec: \<open>operator<<\<close> for a \<open>Value\<close> is declared outside the
  sources. The spec gives \<open>nil\<close>, \<open>true\<close>/\<open>false\<close>, a decimal form of a number and
  the raw characters of a string.
\<close>

fun show_Value :: "'n Double \<Rightarrow> 'n Value \<Rightarrow> string" where
  "show_Value ops VNil = ''nil''"
| "show_Value ops (VBool b) = (if b then ''true'' else ''false'')"
| "show_Value ops (VNumber d) = fshow ops d"
| "show_Value ops (VString s) = s"

text \<open>
  \<open>runTimeError\<close> writes the message and a newline, reads the byte at \<open>pos - 1\<close>
  into \<open>instruction\<close>, and looks the line up at \<open>lines.at(instruction)\<close>; either
  \<open>at\<close> throws \<open>std::out_of_range\<close> outside its vector, before the stack is reset.
\<close>

definition put_cerr :: "string \<Rightarrow> 'n VM \<Rightarrow> 'n VM" where
  "put_cerr s vm = vm\<lparr>cu := (cu vm)\<lparr>cerr := cerr (cu vm) @ s\<rparr>\<rparr>"

definition runTimeError :: "string \<Rightarrow> ('n, unit) vm_fn" where
  "runTimeError message vm =
     (let vm1 = put_cerr (message @ [newline]) vm
      in if pos vm = 0 then (Inl OutOfRange, vm1)
         else if pos vm - 1 < length (code (mChunk vm))
         then let instruction = code (mChunk vm) ! (pos vm - 1)
              in if instruction < length (lines (mChunk vm))
                 then (Inr (),
                       resetStack
                         (put_cerr (''[line '' @ show_nat (lines (mChunk vm) ! instruction)
                                      @ ''] in script'' @ [newline]) vm1))
                 else (Inl OutOfRange, vm1)
         else (Inl OutOfRange, vm1))"

text \<open>
  \<open>binaryOp\<close>: \<open>a\<close> is the top of the stack and \<open>b\<close> the value below it; a
  \<open>std::get<double>\<close> that fails is caught and reported.
\<close>

definition binaryOp :: "('n \<Rightarrow> 'n \<Rightarrow> 'n Value) \<Rightarrow> ('n, bool) vm_fn" where
  "binaryOp op =
     vm_bind (peek 0) (\<lambda>va.
       case va of
         VNumber a \<Rightarrow>
           vm_bind (peek 1) (\<lambda>vb.
             case vb of
               VNumber b \<Rightarrow>
                 vm_bind pop (\<lambda>_. vm_bind pop (\<lambda>_. vm_bind (push (op a b)) (\<lambda>_.
                   vm_return True)))
             | _ \<Rightarrow> vm_bind (runTimeError ''Operands must be numbers.'') (\<lambda>_. vm_return False))
       | _ \<Rightarrow> vm_bind (runTimeError ''Operands must be numbers.'') (\<lambda>_. vm_return False))"

text \<open>
  The macro \<open>BINARY_OP(op)\<close>: the lambda \<open>[](double b, double a) { return (a op b); }\<close>
  goes to \<open>binaryOp\<close>, and a failure returns \<open>InterpretResult::COMPILE_ERROR\<close>. The
  result \<open>None\<close> is the \<open>break\<close> that goes on with the loop.
\<close>

definition BINARY_OP :: "('n \<Rightarrow> 'n \<Rightarrow> 'n Value) \<Rightarrow> ('n, InterpretResult option) vm_fn" where
  "BINARY_OP op =
     vm_bind (binaryOp (\<lambda>b a. op a b)) (\<lambda>success.
       if \<not> success then vm_return (Some COMPILE_ERROR) else vm_return None)"

text \<open>The visitor of the \<open>ADD\<close> case, applied to \<open>peek(1)\<close> and \<open>peek(0)\<close>.\<close>

definition add_visit :: "'n Double \<Rightarrow> 'n Value \<Rightarrow> 'n Value \<Rightarrow> ('n, bool) vm_fn" where
  "add_visit ops v1 v2 =
     (case (v1, v2) of
        (VNumber d1, VNumber d2) \<Rightarrow>
          vm_bind pop (\<lambda>_. vm_bind pop (\<lambda>_. vm_bind (push (VNumber (fadd ops d1 d2))) (\<lambda>_.
            vm_return True)))
      | (VString s1, VString s2) \<Rightarrow>
          vm_bind pop (\<lambda>_. vm_bind pop (\<lambda>_. vm_bind (push (VString (s1 @ s2))) (\<lambda>_.
            vm_return True)))
      | _ \<Rightarrow>
          vm_bind (runTimeError ''Operands must be two numbers or two strings.'') (\<lambda>_.
            vm_return False))"

text \<open>\<open>name.c_str()\<close> written to a stream ends at the first NUL.\<close>

definition c_str :: "string \<Rightarrow> string" where
  "c_str s = takeWhile (\<lambda>ch. ch \<noteq> CHR 0x00) s"

definition undefinedVariable :: "string \<Rightarrow> ('n, InterpretResult option) vm_fn" where
  "undefinedVariable nm =
     vm_bind (runTimeError (''Undefined variable '' @ [quote] @ c_str nm @ [quote] @ ''.''))
       (\<lambda>_. vm_return (Some RUNTIME_ERROR))"

text \<open>
  One round of the loop of \<open>run\<close>: read a byte and switch on it. The \<open>switch\<close> has
  no \<open>default\<close> and no case for \<open>SET_LOCAL\<close> or \<open>GET_LOCAL\<close>: for these and for
  a byte that is no opcode the loop goes on with the next byte.
\<close>

definition step :: "'n Double \<Rightarrow> ('n, InterpretResult option) vm_fn" where
  "step ops =
     vm_bind readByte (\<lambda>byte.
       case opcode_of byte of
         Some ADD \<Rightarrow>
           vm_bind (peek 1) (\<lambda>v1. vm_bind (peek 0) (\<lambda>v2.
             vm_bind (add_visit ops v1 v2) (\<lambda>success.
               if \<not> success then vm_return (Some RUNTIME_ERROR) else vm_return None)))
       | Some SUBTRACT \<Rightarrow> BINARY_OP (\<lambda>a b. VNumber (fsub ops a b))
       | Some DIVIDE \<Rightarrow> BINARY_OP (\<lambda>a b. VNumber (fdiv ops a b))
       | Some MULTIPLY \<Rightarrow> BINARY_OP (\<lambda>a b. VNumber (fmul ops a b))
       | Some NOT \<Rightarrow>
           vm_bind pop (\<lambda>v. vm_bind (push (VBool (isFalsey v))) (\<lambda>_. vm_return None))
       | Some NEGATE \<Rightarrow>
           vm_bind (peek 0) (\<lambda>v.
             case v of
               VNumber d \<Rightarrow>
                 vm_bind pop (\<lambda>_. vm_bind (push (VNumber (fneg ops d))) (\<lambda>_. vm_return None))
             | _ \<Rightarrow>
                 vm_bind (runTimeError ''Operand must be a number.'') (\<lambda>_.
                   vm_return (Some RUNTIME_ERROR)))
       | Some PRINT \<Rightarrow>
           vm_bind pop (\<lambda>v vm.
             (Inr None, vm\<lparr>cout := cout vm @ show_Value ops v @ [newline]\<rparr>))
       | Some CONSTANT \<Rightarrow>
           vm_bind readConstant (\<lambda>constant. vm_bind (push constant) (\<lambda>_. vm_return None))
       | Some NIL \<Rightarrow> vm_bind (push VNil) (\<lambda>_. vm_return None)
       | Some TRUE \<Rightarrow> vm_bind (push (VBool True)) (\<lambda>_. vm_return None)
       | Some FALSE \<Rightarrow> vm_bind (push (VBool False)) (\<lambda>_. vm_return None)
       | Some POP \<Rightarrow> vm_bind pop (\<lambda>_. vm_return None)
       | Some GET_GLOBAL \<Rightarrow>
           vm_bind readString (\<lambda>nm vm.
             case globals vm nm of
               None \<Rightarrow> undefinedVariable nm vm
             | Some found \<Rightarrow> vm_bind (push found) (\<lambda>_. vm_return None) vm)
       | Some DEFINE_GLOBAL \<Rightarrow>
           vm_bind readString (\<lambda>nm. vm_bind (peek 0) (\<lambda>v vm.
             vm_bind pop (\<lambda>_. vm_return None) (vm\<lparr>globals := (globals vm)(nm \<mapsto> v)\<rparr>)))
       | Some SET_GLOBAL \<Rightarrow>
           vm_bind readString (\<lambda>nm vm.
             case globals vm nm of
               None \<Rightarrow> undefinedVariable nm vm
             | Some found \<Rightarrow>
                 vm_bind (peek 0) (\<lambda>v vm1.
                   (Inr None, vm1\<lparr>globals := (globals vm1)(nm \<mapsto> v)\<rparr>)) vm)
       | Some EQUAL \<Rightarrow>
           vm_bind pop (\<lambda>a. vm_bind pop (\<lambda>b.
             vm_bind (push (VBool (valuesEqual ops a b))) (\<lambda>_. vm_return None)))
       | Some GREATER \<Rightarrow> BINARY_OP (\<lambda>a b. VBool (fgreater ops a b))
       | Some LESS \<Rightarrow> BINARY_OP (\<lambda>a b. VBool (fless ops a b))
       | Some RETURN \<Rightarrow> vm_return (Some OK)
       | _ \<Rightarrow> vm_return None)"

text \<open>
  A round that goes on with the loop has read at least one byte of the chunk, so \<open>run\<close>
  comes to an end on every chunk.
\<close>

lemma step_advances:
  "step ops vm = (Inr None, vm1) \<Longrightarrow>
     mChunk vm1 = mChunk vm \<and> pos vm < pos vm1 \<and> pos vm1 \<le> length (code (mChunk vm))"
  by (auto simp: step_def vm_bind_def vm_return_def readByte_def readConstant_def readString_def
        push_def pop_def peek_def BINARY_OP_def binaryOp_def add_visit_def runTimeError_def
        undefinedVariable_def resetStack_def put_cerr_def Let_def
      split: option.splits OpCode.splits Value.splits if_splits prod.splits sum.splits list.splits)

function run :: "'n Double \<Rightarrow> ('n, InterpretResult) vm_fn" where
  "run ops vm =
     (case step ops vm of
        (Inl e, vm1) \<Rightarrow> (Inl e, vm1)
      | (Inr (Some result), vm1) \<Rightarrow> (Inr result, vm1)
      | (Inr None, vm1) \<Rightarrow> run ops vm1)"
  by pat_completeness auto
termination
proof (relation "measure (\<lambda>(ops, vm). length (code (mChunk vm)) - pos vm)")
  show "wf (measure (\<lambda>(ops :: 'n Double, vm :: 'n VM). length (code (mChunk vm)) - pos vm))"
    by simp
next
  fix ops :: "'n Double" and vm :: "'n VM" and x y x2
  assume "(x, y) = step ops vm" and "x = Inr x2" and "x2 = None"
  then have "step ops vm = (Inr None, y)" by simp
  from step_advances [OF this]
  show "((ops, y), (ops, vm)) \<in> measure (\<lambda>(ops, vm). length (code (mChunk vm)) - pos vm)"
    by simp arith
qed

declare run.simps [simp del]

text \<open>\<open>interpret(Chunk* chunk)\<close>.\<close>

definition interpret_chunk :: "'n Double \<Rightarrow> 'n Chunk \<Rightarrow> ('n, InterpretResult) vm_fn" where
  "interpret_chunk ops chunk vm = run ops (vm\<lparr>mChunk := chunk, pos := 0\<rparr>)"

text \<open>
  \<open>interpret(std::string_view code)\<close>: compile into a fresh chunk, return
  \<open>COMPILE_ERROR\<close> when \<open>compile\<close> returns false, run the chunk otherwise. The result
  is \<open>None\<close> when the bound on the depth of the compiler's calls is too small.
\<close>

definition interpret_source ::
  "nat \<Rightarrow> 'n Double \<Rightarrow> Scanner \<Rightarrow> 'n VM \<Rightarrow> ((fault + InterpretResult) \<times> 'n VM) option"
where
  "interpret_source n ops source vm =
     (case compile n ops source emptyChunk (cu vm) of
        Timeout \<Rightarrow> None
      | Fault e \<Rightarrow> Some (Inl e, vm)
      | Ok (ok, c) \<Rightarrow>
          Some (if \<not> ok then (Inr COMPILE_ERROR, vm\<lparr>cu := c\<rparr>)
                else interpret_chunk ops (compilingChunk c) (vm\<lparr>cu := c\<rparr>)))"

section \<open>Initial states and an instance of the number operations\<close>

text \<open>
  The default-constructed \<open>Compilation\<close> (no chunk, no parser, no local, depth 0) and
  the state that the constructor \<open>VM()\<close> leaves, with nothing written yet.
\<close>

definition new_Compilation :: "'n Compilation" where
  "new_Compilation =
     \<lparr>compilingChunk = emptyChunk,
      compiler = \<lparr>locals = (\<lambda>i. \<lparr>name = [], depth = 0\<rparr>), localCount = 0, scopeDepth = 0\<rparr>,
      parser = new_Parser \<lparr>pending = [], eof_line = 0\<rparr>,
      cerr = []\<rparr>"

definition new_VM :: "'n VM" where
  "new_VM =
     \<lparr>mChunk = emptyChunk, pos = 0, stack = [], cu = new_Compilation,
      globals = Map.empty, cout = []\<rparr>"

text \<open>
  An instance of the number operations on the integers, for running the model on
  concrete programs: a lexeme of decimal digits is its value, and a number prints as
  its decimal digits.
\<close>

fun digits_value :: "string \<Rightarrow> nat \<Rightarrow> nat option" where
  "digits_value [] acc = Some acc"
| "digits_value (ch # s) acc =
     (case map_of (zip ''0123456789'' [0, 1, 2, 3, 4, 5, 6, 7, 8, 9]) ch of
        None \<Rightarrow> None
      | Some d \<Rightarrow> digits_value s (10 * acc + d))"

definition test_ops :: "int Double" where
  "test_ops =
     \<lparr>fadd = (+), fsub = (-), fmul = (*), fdiv = (div), fneg = uminus,
      fgreater = (\<lambda>a b. a > b), fless = (<), feq = (=),
      stod = (\<lambda>s. if s = [] then None else map_option int (digits_value s 0)),
      fshow = (\<lambda>i. if i < 0 then ''-'' @ show_nat (nat (- i)) else show_nat (nat i))\<rparr>"

text \<open>A token, and a source text on one line.\<close>

definition tok :: "TokenType \<Rightarrow> string \<Rightarrow> nat \<Rightarrow> Token" where
  "tok ty s l = \<lparr>tok_type = ty, tok_text = s, tok_line = l\<rparr>"

definition dquote :: char where
  "dquote = CHR 0x22"

text \<open>\<open>{ var a = 1; var b = 2; print b; }\<close>\<close>

definition src_locals :: Scanner where
  "src_locals =
     \<lparr>pending =
        [tok TLeftBrace ''{'' 1,
         tok TVar ''var'' 1, tok TIdentifier ''a'' 1, tok TEqual ''='' 1, tok TNumber ''1'' 1,
         tok TSemicolon '';'' 1,
         tok TVar ''var'' 1, tok TIdentifier ''b'' 1, tok TEqual ''='' 1, tok TNumber ''2'' 1,
         tok TSemicolon '';'' 1,
         tok TPrint ''print'' 1, tok TIdentifier ''b'' 1, tok TSemicolon '';'' 1,
         tok TRightBrace ''}'' 1],
      eof_line = 1\<rparr>"

text \<open>\<open>print !0;\<close>\<close>

definition src_not :: Scanner where
  "src_not =
     \<lparr>pending =
        [tok TPrint ''print'' 1, tok TBang ''!'' 1, tok TNumber ''0'' 1, tok TSemicolon '';'' 1],
      eof_line = 1\<rparr>"

text \<open>\<open>print 1; print 1; print 1; print 1; print 1 - "a";\<close>\<close>

definition src_sub :: Scanner where
  "src_sub =
     \<lparr>pending =
        [tok TPrint ''print'' 1, tok TNumber ''1'' 1, tok TSemicolon '';'' 1,
         tok TPrint ''print'' 1, tok TNumber ''1'' 1, tok TSemicolon '';'' 1,
         tok TPrint ''print'' 1, tok TNumber ''1'' 1, tok TSemicolon '';'' 1,
         tok TPrint ''print'' 1, tok TNumber ''1'' 1, tok TSemicolon '';'' 1,
         tok TPrint ''print'' 1, tok TNumber ''1'' 1, tok TMinus ''-'' 1,
         tok TString ([dquote] @ ''a'' @ [dquote]) 1, tok TSemicolon '';'' 1],
      eof_line = 1\<rparr>"

text \<open>Six lines \<open>print 1;\<close> and \<open>print -"a";\<close> on line 7.\<close>

definition src_neg :: Scanner where
  "src_neg =
     \<lparr>pending =
        [tok TPrint ''print'' 1, tok TNumber ''1'' 1, tok TSemicolon '';'' 1,
         tok TPrint ''print'' 2, tok TNumber ''1'' 2, tok TSemicolon '';'' 2,
         tok TPrint ''print'' 3, tok TNumber ''1'' 3, tok TSemicolon '';'' 3,
         tok TPrint ''print'' 4, tok TNumber ''1'' 4, tok TSemicolon '';'' 4,
         tok TPrint ''print'' 5, tok TNumber ''1'' 5, tok TSemicolon '';'' 5,
         tok TPrint ''print'' 6, tok TNumber ''1'' 6, tok TSemicolon '';'' 6,
         tok TPrint ''print'' 7, tok TMinus ''-'' 7,
         tok TString ([dquote] @ ''a'' @ [dquote]) 7, tok TSemicolon '';'' 7],
      eof_line = 7\<rparr>"

text \<open>\<open>)\<close>\<close>

definition src_paren :: Scanner where
  "src_paren = \<lparr>pending = [tok TRightParen '')'' 1], eof_line = 1\<rparr>"

text \<open>\<open>print 1 + "b";\<close>\<close>

definition src_add :: Scanner where
  "src_add =
     \<lparr>pending =
        [tok TPrint ''print'' 1, tok TNumber ''1'' 1, tok TPlus ''+'' 1,
         tok TString ([dquote] @ ''b'' @ [dquote]) 1, tok TSemicolon '';'' 1],
      eof_line = 1\<rparr>"

text \<open>The statement \<open>0;\<close> written \<open>k\<close> times.\<close>

definition num0 :: Token where
  "num0 = tok TNumber ''0'' 1"

definition semi :: Token where
  "semi = tok TSemicolon '';'' 1"

fun many :: "nat \<Rightarrow> Token list" where
  "many 0 = []"
| "many (Suc k) = num0 # semi # many k"

definition src_many :: "nat \<Rightarrow> Scanner" where
  "src_many k = \<lparr>pending = many k, eof_line = 1\<rparr>"

text \<open>A chunk of one instruction byte, and a machine about to run it on a given stack.\<close>

definition one_op :: "OpCode \<Rightarrow> 'n Chunk" where
  "one_op op = \<lparr>code = [opcode_byte op], lines = [1], constants = []\<rparr>"

definition vm_at :: "OpCode \<Rightarrow> 'n Value list \<Rightarrow> 'n VM" where
  "vm_at op st = new_VM\<lparr>mChunk := one_op op, stack := st\<rparr>"

section \<open>Evaluation of the model\<close>

lemma res_bind_weak_cong: "m = m' \<Longrightarrow> res_bind m f = res_bind m' f"
  by simp

lemma res_bind_simps:
  "res_bind (Ok a) f = f a"
  "res_bind (Fault e) f = Fault e"
  "res_bind Timeout f = Timeout"
  by (simp_all add: res_bind_def)

lemma descent_numeral:
  "descent (numeral k) ops = descent_body (descent (pred_numeral k) ops) ops"
  by (simp add: numeral_eq_Suc)

lemma compile_loop_numeral:
  "compile_loop (numeral k) ops c =
     (let (m, c1) = match TEof c
      in if m then Ok c1
         else res_bind (declaration_st (pred_numeral k) ops c1)
                (compile_loop (pred_numeral k) ops))"
  by (simp add: numeral_eq_Suc)

lemmas compile_defs =
  compile_def new_Parser_def advance_def advance_loop.simps scanToken_def
  match_def check_def consume_def errorAt_def errorAtCurrent_def error_def
  declaration_st_def descent_body_def declaration_body_def varDeclaration_body_def
  statement_body_def block_body_def printStatement_body_def expressionStatement_body_def
  expression_body_def parsePrecedence_body_def parsePrecedence_loop_body_def invoke_body_def
  grouping_body_def unary_body_def binary_body_def variable_body_def namedVariable_body_def
  getRule_def emitByte_def emitOp_def emitBytes_def emitOps_def emitReturn_def endCompiler_def
  makeConstant_def emitConstant_def number_def literal_def string_rule_def identifiersEqual_def
  resolveLocal_def identifierConstant_def to_size_t_def addLocal_def declareVariable_def
  parseVariable_def markInitialized_def defineVariable_def beginScope_def endScope_def
  endScope_loop.simps synchronize_def synchronize_loop.simps write_chunk_def addConstant_def
  emptyChunk_def UINT8_COUNT_def UINT8_MAX_def res_bind_simps descent_numeral
  compile_loop_numeral Let_def show_nat.simps newline_def quote_def dquote_def
  new_Compilation_def test_ops_def tok_def

lemmas vm_defs =
  step_def vm_bind_def vm_return_def readByte_def readConstant_def readString_def
  push_def pop_def peek_def BINARY_OP_def binaryOp_def add_visit_def runTimeError_def
  undefinedVariable_def resetStack_def put_cerr_def opcode_of_def STACK_MAX_def
  interpret_chunk_def run.simps c_str_def interpret_source_def new_VM_def

lemma readByte_at:
  "pos vm < length (code (mChunk vm)) \<Longrightarrow>
     readByte vm = (Inr (code (mChunk vm) ! pos vm), vm\<lparr>pos := pos vm + 1\<rparr>)"
  by (simp add: readByte_def)

lemma BINARY_OP_numbers:
  assumes st: "stack vm = VNumber r # VNumber l # rest"
      and room: "length (stack vm) \<le> STACK_MAX"
  shows "BINARY_OP op vm = (Inr None, vm\<lparr>stack := op l r # rest\<rparr>)"
  using st room
  by (simp add: BINARY_OP_def binaryOp_def vm_bind_def [abs_def] vm_return_def peek_def pop_def
        push_def STACK_MAX_def)

lemma compile_src_paren:
  "\<exists>c. compile 10 test_ops src_paren emptyChunk (cu (new_VM :: int VM)) = Ok (False, c)
        \<and> cerr c = ''[line 1] Error at ): Expected expression.'' @ [newline]"
  by (simp add: compile_defs new_VM_def src_paren_def cong: res_bind_weak_cong)

section \<open>The bound on the depth of calls\<close>

text \<open>
  A larger bound does not change a result that a smaller bound gives: the descent and
  \<open>compile\<close> are monotone in the bound.
\<close>

lemma res_le_refl: "res_le r r"
  by (simp add: res_le_def)

lemma res_le_bind:
  "res_le m m' \<Longrightarrow> (\<And>a. res_le (f a) (f' a)) \<Longrightarrow> res_le (res_bind m f) (res_bind m' f')"
  by (cases m) (auto simp: res_le_def res_bind_def)

lemma descent_body_mono:
  assumes R: "\<And>k c. res_le (R k c) (R' k c)"
  shows "res_le (descent_body R ops k c) (descent_body R' ops k c)"
proof (cases k)
  case Declaration
  then show ?thesis
    by (auto simp: descent_body_def declaration_body_def Let_def
        intro!: res_le_bind res_le_refl R split: prod.split)
next
  case VarDeclaration
  then show ?thesis
    by (auto simp: descent_body_def varDeclaration_body_def Let_def
        intro!: res_le_bind res_le_refl R split: prod.split)
next
  case Statement
  then show ?thesis
    by (auto simp: descent_body_def statement_body_def Let_def
        intro!: res_le_bind res_le_refl R split: prod.split)
next
  case Block
  then show ?thesis
    by (auto simp: descent_body_def block_body_def Let_def
        intro!: res_le_bind res_le_refl R split: prod.split)
next
  case PrintStatement
  then show ?thesis
    by (auto simp: descent_body_def printStatement_body_def Let_def
        intro!: res_le_bind res_le_refl R split: prod.split)
next
  case ExpressionStatement
  then show ?thesis
    by (auto simp: descent_body_def expressionStatement_body_def Let_def
        intro!: res_le_bind res_le_refl R split: prod.split)
next
  case Expression
  then show ?thesis
    by (auto simp: descent_body_def expression_body_def Let_def
        intro!: res_le_bind res_le_refl R split: prod.split)
next
  case (ParsePrecedence prec)
  then show ?thesis
    by (auto simp: descent_body_def parsePrecedence_body_def Let_def
        intro!: res_le_bind res_le_refl R split: prod.split option.split)
next
  case (ParsePrecedence_loop prec canAssign)
  then show ?thesis
    by (auto simp: descent_body_def parsePrecedence_loop_body_def Let_def
        intro!: res_le_bind res_le_refl R split: prod.split option.split)
next
  case (Invoke fn canAssign)
  then show ?thesis
    by (cases fn) (auto simp: descent_body_def invoke_body_def intro!: res_le_refl R)
next
  case Grouping
  then show ?thesis
    by (auto simp: descent_body_def grouping_body_def Let_def
        intro!: res_le_bind res_le_refl R split: prod.split)
next
  case Unary
  then show ?thesis
    by (auto simp: descent_body_def unary_body_def Let_def
        intro!: res_le_bind res_le_refl R split: prod.split)
next
  case Binary
  then show ?thesis
    by (auto simp: descent_body_def binary_body_def Let_def
        intro!: res_le_bind res_le_refl R split: prod.split)
next
  case (Variable canAssign)
  then show ?thesis
    by (auto simp: descent_body_def variable_body_def Let_def
        intro!: res_le_bind res_le_refl R split: prod.split)
next
  case (NamedVariable canAssign)
  then show ?thesis
    by (auto simp: descent_body_def namedVariable_body_def Let_def
        intro!: res_le_bind res_le_refl R split: prod.split)
qed


lemma descent_Suc: "res_le (descent n ops k c) (descent (Suc n) ops k c)"
proof (induction n arbitrary: k c)
  case 0
  then show ?case by (simp add: res_le_def)
next
  case (Suc n)
  show ?case
    using descent_body_mono [of "descent n ops" "descent (Suc n) ops" ops k c] Suc.IH
    by simp
qed

lemma descent_mono:
  "n \<le> m \<Longrightarrow> res_le (descent n ops k c) (descent m ops k c)"
proof (induction m)
  case 0
  then show ?case by (simp add: res_le_refl)
next
  case (Suc m)
  show ?case
  proof (cases "n = Suc m")
    case True
    then show ?thesis by (simp add: res_le_refl)
  next
    case False
    with Suc have "res_le (descent n ops k c) (descent m ops k c)" by simp
    with descent_Suc [of m ops k c] show ?thesis
      by (auto simp: res_le_def)
  qed
qed

lemma compile_loop_mono:
  "n \<le> m \<Longrightarrow> res_le (compile_loop n ops c) (compile_loop m ops c)"
proof (induction n arbitrary: m c)
  case 0
  then show ?case by (simp add: res_le_def)
next
  case (Suc n)
  then obtain m' where m: "m = Suc m'" and le: "n \<le> m'"
    by (cases m) auto
  show ?case
    unfolding m
    by (auto simp: Let_def declaration_st_def split: prod.split
          intro!: res_le_bind res_le_refl descent_mono [OF le] Suc.IH [OF le])
qed

lemma compile_mono:
  "n \<le> m \<Longrightarrow> res_le (compile n ops source chunk c) (compile m ops source chunk c)"
  unfolding compile_def
  by (intro res_le_bind compile_loop_mono res_le_refl)

lemma compile_Ok_mono:
  "compile n ops source chunk c = Ok r \<Longrightarrow> n \<le> m \<Longrightarrow> compile m ops source chunk c = Ok r"
  using compile_mono [of n m ops source chunk c] by (simp add: res_le_def)

section \<open>Compiling a long run of statements\<close>

text \<open>
  One round of the loop of \<open>compile\<close> on the statement \<open>0;\<close>, from any state whose
  current token is the number and whose parser is not in panic mode, and then all the
  rounds by induction on the number of statements still to come.
\<close>

lemma makeConstant_eq:
  "makeConstant v c =
     (length (constants (compilingChunk c)) mod 256,
      c\<lparr>compilingChunk :=
           (compilingChunk c)\<lparr>constants := constants (compilingChunk c) @ [v]\<rparr>\<rparr>)"
  by (simp add: makeConstant_def addConstant_def UINT8_MAX_def Let_def)

lemmas symbolic_defs =
  advance_def advance_loop.simps scanToken_def
  match_def check_def consume_def errorAt_def errorAtCurrent_def error_def
  declaration_st_def descent_body_def declaration_body_def
  statement_body_def expressionStatement_body_def
  expression_body_def parsePrecedence_body_def parsePrecedence_loop_body_def invoke_body_def
  getRule_def emitByte_def emitOp_def emitBytes_def
  makeConstant_eq emitConstant_def number_def
  write_chunk_def res_bind_simps Let_def test_ops_def tok_def

lemma statement_round:
  assumes cur: "current (parser c) = num0"
      and pend: "pending (scanner (parser c)) = semi # many k"
      and calm: "\<not> panicMode (parser c)"
  shows "\<exists>c1. declaration_st (n + 6) test_ops c = Ok c1
           \<and> \<not> panicMode (parser c1)
           \<and> hadError (parser c1) = hadError (parser c)
           \<and> cerr c1 = cerr c
           \<and> constants (compilingChunk c1) = constants (compilingChunk c) @ [VNumber 0]
           \<and> (case k of
                 0 \<Rightarrow> tok_type (current (parser c1)) = TEof \<and> pending (scanner (parser c1)) = []
               | Suc j \<Rightarrow> current (parser c1) = num0 \<and> pending (scanner (parser c1)) = semi # many j)"
proof -
  have fuel: "n + 6 = Suc (Suc (Suc (Suc (Suc (Suc n)))))" by simp
  show ?thesis
    unfolding fuel using assms
    by (cases k)
       (simp_all add: symbolic_defs num0_def semi_def cong: res_bind_weak_cong)
qed

lemma compile_loop_at_Eof:
  assumes "tok_type (current (parser c)) = TEof" and "pending (scanner (parser c)) = []"
  shows "\<exists>c2. compile_loop (Suc m) ops c = Ok c2
           \<and> hadError (parser c2) = hadError (parser c) \<and> cerr c2 = cerr c
           \<and> compilingChunk c2 = compilingChunk c"
  using assms
  by (simp add: match_def check_def advance_def advance_loop.simps scanToken_def Let_def)

lemma compile_loop_round:
  assumes "current (parser c) = num0"
  shows "compile_loop (Suc m) ops c
           = res_bind (declaration_st m ops c) (compile_loop m ops)"
  using assms by (simp add: match_def check_def num0_def tok_def)

lemma many_rounds:
  assumes cur: "current (parser c) = num0"
      and pend: "pending (scanner (parser c)) = semi # many k"
      and calm: "\<not> panicMode (parser c)"
  shows "\<exists>c1. compile_loop (k + 8) test_ops c = Ok c1
           \<and> hadError (parser c1) = hadError (parser c)
           \<and> cerr c1 = cerr c
           \<and> length (constants (compilingChunk c1))
               = length (constants (compilingChunk c)) + Suc k"
  using assms
proof (induction k arbitrary: c)
  case 0
  obtain c1 where r: "declaration_st (1 + 6) test_ops c = Ok c1"
    and c1: "hadError (parser c1) = hadError (parser c)" "cerr c1 = cerr c"
      "constants (compilingChunk c1) = constants (compilingChunk c) @ [VNumber 0]"
      "tok_type (current (parser c1)) = TEof" "pending (scanner (parser c1)) = []"
    using statement_round [OF "0.prems", of 1] by auto
  obtain c2 where c2: "compile_loop (Suc 6) test_ops c1 = Ok c2"
      "hadError (parser c2) = hadError (parser c1)" "cerr c2 = cerr c1"
      "compilingChunk c2 = compilingChunk c1"
    using compile_loop_at_Eof [OF c1(4,5), of 6 test_ops] by auto
  have "compile_loop (0 + 8) test_ops c = compile_loop (Suc 7) test_ops c"
    by simp
  also have "\<dots> = res_bind (declaration_st 7 test_ops c) (compile_loop 7 test_ops)"
    by (rule compile_loop_round [OF "0.prems"(1)])
  also have "\<dots> = compile_loop 7 test_ops c1"
    using r by (simp add: res_bind_simps)
  also have "\<dots> = Ok c2"
    using c2(1) by simp
  finally show ?case
    using c1 c2 by simp
next
  case (Suc k)
  obtain c1 where r: "declaration_st ((k + 2) + 6) test_ops c = Ok c1"
    and c1: "\<not> panicMode (parser c1)" "hadError (parser c1) = hadError (parser c)"
      "cerr c1 = cerr c"
      "constants (compilingChunk c1) = constants (compilingChunk c) @ [VNumber 0]"
      "current (parser c1) = num0" "pending (scanner (parser c1)) = semi # many k"
    using statement_round [OF Suc.prems, of "k + 2"] by auto
  obtain c2 where c2: "compile_loop (k + 8) test_ops c1 = Ok c2"
      "hadError (parser c2) = hadError (parser c1)" "cerr c2 = cerr c1"
      "length (constants (compilingChunk c2)) = length (constants (compilingChunk c1)) + Suc k"
    using Suc.IH [OF c1(5,6,1)] by auto
  have "compile_loop (Suc k + 8) test_ops c = compile_loop (Suc (k + 8)) test_ops c"
    by simp
  also have "\<dots> = res_bind (declaration_st (k + 8) test_ops c) (compile_loop (k + 8) test_ops)"
    by (rule compile_loop_round [OF Suc.prems(1)])
  also have "\<dots> = compile_loop (k + 8) test_ops c1"
    using r by (simp add: res_bind_simps add.commute add.left_commute)
  finally show ?case
    using c2 c1 by simp
qed

lemma many_numeral: "many (numeral n) = num0 # semi # many (pred_numeral n)"
  by (simp add: numeral_eq_Suc)

section \<open>The step of \<open>ADD\<close>\<close>

text \<open>
  With \<open>v2\<close> on top of \<open>v1\<close>, the step of \<open>ADD\<close> is the sum of two numbers, the
  concatenation of two strings with the deeper one first, and for any other pair the
  report of \<open>runTimeError\<close> from the state whose stack still holds both operands.
  When \<open>lines\<close> has an entry 13 (the byte of \<open>ADD\<close>), that report writes the
  message and the line found there, resets the stack and ends the loop with
  \<open>RUNTIME_ERROR\<close>.
\<close>

lemma ADD_step:
  assumes at: "pos vm < length (code (mChunk vm))"
      and op: "code (mChunk vm) ! pos vm = opcode_byte ADD"
      and st: "stack vm = v2 # v1 # rest"
      and room: "length (stack vm) \<le> STACK_MAX"
  shows "step ops vm =
     (case (v1, v2) of
        (VNumber d1, VNumber d2) \<Rightarrow>
          (Inr None, vm\<lparr>pos := pos vm + 1, stack := VNumber (fadd ops d1 d2) # rest\<rparr>)
      | (VString s1, VString s2) \<Rightarrow>
          (Inr None, vm\<lparr>pos := pos vm + 1, stack := VString (s1 @ s2) # rest\<rparr>)
      | _ \<Rightarrow>
          (case runTimeError ''Operands must be two numbers or two strings.''
                  (vm\<lparr>pos := pos vm + 1\<rparr>) of
             (Inl e, vm1) \<Rightarrow> (Inl e, vm1)
           | (Inr u, vm1) \<Rightarrow> (Inr (Some RUNTIME_ERROR), vm1)))"
  using st room
  by (cases v1; cases v2)
     (simp_all add: step_def vm_bind_def [abs_def] vm_return_def readByte_at [OF at] op
        opcode_of_def peek_def pop_def push_def add_visit_def STACK_MAX_def
        split: prod.splits sum.splits)

lemma ADD_mismatch_with_line:
  assumes at: "pos vm < length (code (mChunk vm))"
      and op: "code (mChunk vm) ! pos vm = opcode_byte ADD"
      and st: "stack vm = v2 # v1 # rest"
      and room: "length (stack vm) \<le> STACK_MAX"
      and nonum: "\<nexists>d1 d2. v1 = VNumber d1 \<and> v2 = VNumber d2"
      and nostr: "\<nexists>s1 s2. v1 = VString s1 \<and> v2 = VString s2"
      and line: "13 < length (lines (mChunk vm))"
  shows "step ops vm =
     (Inr (Some RUNTIME_ERROR),
      vm\<lparr>pos := pos vm + 1, stack := [],
         cu := (cu vm)\<lparr>cerr := cerr (cu vm)
                  @ ''Operands must be two numbers or two strings.'' @ [newline]
                  @ ''[line '' @ show_nat (lines (mChunk vm) ! 13) @ ''] in script''
                  @ [newline]\<rparr>\<rparr>)"
proof -
  have "step ops vm =
     (case runTimeError ''Operands must be two numbers or two strings.''
             (vm\<lparr>pos := pos vm + 1\<rparr>) of
        (Inl e, vm1) \<Rightarrow> (Inl e, vm1)
      | (Inr u, vm1) \<Rightarrow> (Inr (Some RUNTIME_ERROR), vm1))"
    unfolding ADD_step [OF at op st room] using nonum nostr
    by (cases v1; cases v2) simp_all
  then show ?thesis
    using at op line
    by (simp add: runTimeError_def put_cerr_def resetStack_def Let_def)
qed

section \<open>Local variables in the dispatch loop\<close>

text \<open>
  Claim C1: when the dispatch loop executes \<open>GET_LOCAL\<close> it reads the slot operand and
  pushes \<open>stack[slot]\<close>, and \<open>SET_LOCAL\<close> stores the top of the stack into the slot.
  The compiler emits both instructions with the slot as operand, but the \<open>switch\<close> of
  \<open>run\<close> has no case for either. For \<open>{ var a = 1; var b = 2; print b; }\<close> the
  compiler emits \<open>GET_LOCAL 1\<close> (bytes 9, 1); the loop skips the byte 9, executes
  the operand 1 as the instruction \<open>NIL\<close>, and the program prints \<open>nil\<close>, where
  slot 1 holds the number 2.
\<close>

theorem GET_LOCAL_is_skipped:
  "map_option (\<lambda>(r, vm). (r, cout vm, mChunk vm))
     (interpret_source 30 test_ops src_locals new_VM)
     = Some (Inr OK, ''nil'' @ [newline],
         \<lparr>code = [0, 0, 0, 1, 9, 1, 19, 4, 4, 20], lines = [1, 1, 1, 1, 1, 1, 1, 1, 1, 1],
          constants = [VNumber 1, VNumber 2]\<rparr>)"
  by (simp add: vm_defs compile_defs src_locals_def cong: res_bind_weak_cong)

section \<open>Truthiness\<close>

text \<open>
  Claim C2: \<open>NOT\<close> pushes \<open>true\<close> for \<open>Nil\<close> and \<open>Bool(false)\<close> and \<open>false\<close>
  for every other value, among them \<open>Number(0)\<close> and the empty string. In the source
  the template of \<open>FalseyVistor\<close>, which takes a number and a string, returns
  \<open>true\<close>: \<open>print !0;\<close> prints \<open>true\<close>.
\<close>

theorem NOT_number_pushes_true:
  "map_option (\<lambda>(r, vm). (r, cout vm, mChunk vm)) (interpret_source 20 test_ops src_not new_VM)
     = Some (Inr OK, ''true'' @ [newline],
         \<lparr>code = [0, 0, 18, 19, 20], lines = [1, 1, 1, 1, 1], constants = [VNumber 0]\<rparr>)"
  by (simp add: vm_defs compile_defs src_not_def cong: res_bind_weak_cong)

section \<open>Binary operators on operands that are not numbers\<close>

text \<open>
  Claim C3: \<open>SUBTRACT\<close>, \<open>MULTIPLY\<close>, \<open>DIVIDE\<close>, \<open>GREATER\<close> and \<open>LESS\<close> on
  operands that are not both numbers report \<open>Operands must be numbers.\<close>, reset the
  stack, and the call returns \<open>RUNTIME_ERROR\<close>. The macro \<open>BINARY_OP\<close> returns
  \<open>COMPILE_ERROR\<close>: the last statement of
  \<open>print 1; print 1; print 1; print 1; print 1 - "a";\<close> reports the error, the stack is
  reset, and the result of the call is \<open>COMPILE_ERROR\<close>.
\<close>

theorem BINARY_OP_returns_COMPILE_ERROR:
  "map_option (\<lambda>(r, vm). (r, cerr (cu vm), stack vm, mChunk vm))
     (interpret_source 20 test_ops src_sub new_VM)
     = Some (Inr COMPILE_ERROR,
         ''Operands must be numbers.'' @ [newline] @ ''[line 1] in script'' @ [newline], [],
         \<lparr>code = [0, 0, 19, 0, 1, 19, 0, 2, 19, 0, 3, 19, 0, 4, 0, 5, 14, 19, 20],
          lines = [1, 1, 1, 1, 1, 1, 1, 1, 1, 1, 1, 1, 1, 1, 1, 1, 1, 1, 1],
          constants = [VNumber 1, VNumber 1, VNumber 1, VNumber 1, VNumber 1, VString ''a'']\<rparr>)"
  by (simp add: vm_defs compile_defs src_sub_def cong: res_bind_weak_cong)

section \<open>The bound of the constant pool\<close>

text \<open>
  Claim C4: a compilation that adds more than 256 constants to a chunk reports
  \<open>Too many constants in one chunk\<close> and fails, because \<open>makeConstant\<close> detects an
  index that does not fit in one byte. \<open>makeConstant\<close> compares the index with
  \<open>UINT8_MAX\<close> after the cast to \<open>uint8_t\<close>, so the comparison never holds and the
  index wraps. The statement \<open>0;\<close> written 257 times compiles with success: nothing is
  written to \<open>std::cerr\<close>, and the chunk holds 257 constants.
\<close>

theorem compile_257_constants:
  "\<exists>c. compile 264 test_ops (src_many 257) emptyChunk (new_Compilation :: int Compilation)
          = Ok (True, c)
        \<and> cerr c = [] \<and> length (constants (compilingChunk c)) = 257"
proof -
  define c0 where "c0 = advance ((new_Compilation :: int Compilation)
               \<lparr>parser := new_Parser (src_many 257), compilingChunk := emptyChunk\<rparr>)"
  have c0: "current (parser c0) = num0" "pending (scanner (parser c0)) = semi # many 256"
    "\<not> panicMode (parser c0)" "\<not> hadError (parser c0)" "cerr c0 = []"
    "constants (compilingChunk c0) = []"
    unfolding c0_def
    by (simp_all add: advance_def advance_loop.simps scanToken_def src_many_def many_numeral
          new_Parser_def new_Compilation_def emptyChunk_def num0_def tok_def Let_def)
  obtain c1 where c1: "compile_loop (256 + 8) test_ops c0 = Ok c1"
      "hadError (parser c1) = hadError (parser c0)" "cerr c1 = cerr c0"
      "length (constants (compilingChunk c1)) = length (constants (compilingChunk c0)) + Suc 256"
    using many_rounds [OF c0(1,2,3)] by auto
  have "compile 264 test_ops (src_many 257) emptyChunk (new_Compilation :: int Compilation)
          = Ok (\<not> hadError (parser (endCompiler c1)), endCompiler c1)"
    using c1(1) by (simp add: compile_def res_bind_simps Let_def c0_def [symmetric])
  moreover have "\<not> hadError (parser (endCompiler c1))" "cerr (endCompiler c1) = []"
    "length (constants (compilingChunk (endCompiler c1))) = 257"
    using c1 c0
    by (simp_all add: endCompiler_def emitReturn_def emitOp_def emitByte_def write_chunk_def)
  ultimately show ?thesis by simp
qed

section \<open>The line of a runtime error\<close>

text \<open>
  Claim C5: a runtime error writes the message and then \<open>[line N] in script\<close>, where
  \<open>N\<close> is the line recorded for the byte at the position before the instruction
  pointer, resets the stack and returns \<open>RUNTIME_ERROR\<close>. \<open>runTimeError\<close> takes the
  byte at that position and uses the byte itself as the index into \<open>lines\<close>. After six
  lines \<open>print 1;\<close>, the statement \<open>print -"a";\<close> on line 7 has its \<open>NEGATE\<close>
  (byte 17) at position 20, whose line is 7; the line reported is the one of position
  17, which is 6.
\<close>

theorem runTimeError_line_of_opcode:
  "map_option (\<lambda>(r, vm). (r, cerr (cu vm), lines (mChunk vm) ! 20, code (mChunk vm) ! 20))
     (interpret_source 20 test_ops src_neg new_VM)
     = Some (Inr RUNTIME_ERROR,
         ''Operand must be a number.'' @ [newline] @ ''[line 6] in script'' @ [newline], 7, 17)"
  by (simp add: vm_defs compile_defs src_neg_def cong: res_bind_weak_cong)

section \<open>Addition and concatenation\<close>

text \<open>
  Claim C6: \<open>ADD\<close> on two numbers pops both and pushes their sum; on two strings it
  pops both and pushes the concatenation, the deeper operand first; on any other pair
  the runtime error \<open>Operands must be two numbers or two strings.\<close> is raised, and
  no operand is popped before the error is detected. The type check by peeking is as
  the claim says, but the error is raised through \<open>runTimeError\<close>, which looks the
  line up at the byte of the instruction, 13 for \<open>ADD\<close>. The chunk of
  \<open>print 1 + "b";\<close> has seven bytes: the message is written, \<open>lines.at(13)\<close>
  throws \<open>std::out_of_range\<close>, no line is written, the stack is not reset and both
  operands are still on it, and the call ends with the exception instead of
  \<open>RUNTIME_ERROR\<close>.
\<close>

theorem ADD_mismatch_ends_in_out_of_range:
  "map_option (\<lambda>(r, vm). (r, cerr (cu vm), stack vm, mChunk vm))
     (interpret_source 20 test_ops src_add new_VM)
     = Some (Inl OutOfRange,
         ''Operands must be two numbers or two strings.'' @ [newline],
         [VString ''b'', VNumber 1],
         \<lparr>code = [0, 0, 0, 1, 13, 19, 20], lines = [1, 1, 1, 1, 1, 1, 1],
          constants = [VNumber 1, VString ''b'']\<rparr>)"
  by (simp add: vm_defs compile_defs src_add_def cong: res_bind_weak_cong)

section \<open>Diagnostics of the compiler\<close>

text \<open>
  Claim C7, as amended: a diagnostic that panic mode does not suppress is written to
  \<open>std::cerr\<close> as \<open>[line N] Error<loc>: <message>\<close> and a newline, where \<open><loc>\<close>
  is \<open> at end\<close> for an \<open>Eof\<close> token, empty for an \<open>Error\<close> token, and otherwise
  \<open> at \<close> followed by the lexeme as it is, without quotes.
\<close>

theorem errorAt_format:
  assumes "\<not> panicMode (parser c)"
  shows "cerr (errorAt token message c)
           = cerr c @ ''[line '' @ show_nat (tok_line token) @ ''] Error''
               @ (if tok_type token = TEof then '' at end''
                  else if tok_type token = TError then []
                  else '' at '' @ tok_text token)
               @ '': '' @ message @ [newline]"
  using assms by (simp add: errorAt_def)

text \<open>Witness for C7: a diagnostic at \<open>;\<close> on line 12, one at the end, one for an error token.\<close>

theorem errorAt_format_witness:
  "\<not> panicMode (parser (new_Compilation :: int Compilation))
   \<and> cerr (errorAt (tok TSemicolon '';'' 12) ''Expected expression.''
             (new_Compilation :: int Compilation))
       = ''[line 12] Error at ;: Expected expression.'' @ [newline]
   \<and> cerr (errorAt (tok TEof [] 3) ''Expected expression.''
             (new_Compilation :: int Compilation))
       = ''[line 3] Error at end: Expected expression.'' @ [newline]
   \<and> cerr (errorAt (tok TError ''Unexpected character.'' 3) ''Unexpected character.''
             (new_Compilation :: int Compilation))
       = ''[line 3] Error: Unexpected character.'' @ [newline]"
  using errorAt_format [of "new_Compilation :: int Compilation" "tok TSemicolon '';'' 12" "''Expected expression.''"]
        errorAt_format [of "new_Compilation :: int Compilation" "tok TEof [] 3" "''Expected expression.''"]
        errorAt_format [of "new_Compilation :: int Compilation" "tok TError ''Unexpected character.'' 3" "''Unexpected character.''"]
  by (simp add: new_Compilation_def new_Parser_def tok_def show_nat.simps)

text \<open>
  Claim C7 as stated puts the lexeme in single quotes. At the token \<open>;\<close> on line 1
  the text written is not \<open>[line 1] Error at ';': Expected expression.\<close>
\<close>

theorem errorAt_quotes_counterexample:
  "cerr (errorAt (tok TSemicolon '';'' 1) ''Expected expression.''
           (new_Compilation :: int Compilation))
     \<noteq> ''[line 1] Error at '' @ [quote] @ '';'' @ [quote] @ '': Expected expression.'' @ [newline]"
  by (simp add: errorAt_def new_Compilation_def new_Parser_def tok_def show_nat.simps quote_def)

section \<open>Equality of values\<close>

text \<open>
  Claim C8: \<open>EQUAL\<close> pops two values and pushes a \<open>Bool\<close>, without any runtime
  error: \<open>false\<close> for values of different cases, and for values of one case the equality
  of the payloads (the equality of numbers, of booleans, of the characters of strings,
  \<open>true\<close> for \<open>Nil\<close> and \<open>Nil\<close>).
\<close>

theorem EQUAL_contract:
  assumes at: "pos vm < length (code (mChunk vm))"
      and op: "code (mChunk vm) ! pos vm = opcode_byte EQUAL"
      and st: "stack vm = a # b # rest"
      and room: "length (stack vm) \<le> STACK_MAX"
  shows "step ops vm
           = (Inr None, vm\<lparr>pos := pos vm + 1, stack := VBool (valuesEqual ops a b) # rest\<rparr>)
         \<and> valuesEqual ops a b =
             (case (a, b) of
                (VNil, VNil) \<Rightarrow> True
              | (VBool x, VBool y) \<Rightarrow> (x = y)
              | (VNumber x, VNumber y) \<Rightarrow> feq ops x y
              | (VString s, VString t) \<Rightarrow> (s = t)
              | _ \<Rightarrow> False)"
proof
  show "step ops vm
          = (Inr None, vm\<lparr>pos := pos vm + 1, stack := VBool (valuesEqual ops a b) # rest\<rparr>)"
    using st room
    by (simp add: step_def vm_bind_def [abs_def] vm_return_def readByte_at [OF at] op
          opcode_of_def pop_def push_def STACK_MAX_def)
  show "valuesEqual ops a b =
             (case (a, b) of
                (VNil, VNil) \<Rightarrow> True
              | (VBool x, VBool y) \<Rightarrow> (x = y)
              | (VNumber x, VNumber y) \<Rightarrow> feq ops x y
              | (VString s, VString t) \<Rightarrow> (s = t)
              | _ \<Rightarrow> False)"
    by (cases a; cases b) simp_all
qed

text \<open>Witness for C8: \<open>"1" == 1\<close> is \<open>false\<close>, \<open>2 == 2\<close> is \<open>true\<close>.\<close>

theorem EQUAL_contract_witness:
  "pos (vm_at EQUAL [VNumber 1, VString ''1''] :: int VM)
      < length (code (mChunk (vm_at EQUAL [VNumber 1, VString ''1''] :: int VM)))
   \<and> code (mChunk (vm_at EQUAL [VNumber 1, VString ''1''] :: int VM))
       ! pos (vm_at EQUAL [VNumber 1, VString ''1''] :: int VM) = opcode_byte EQUAL
   \<and> length (stack (vm_at EQUAL [VNumber 1, VString ''1''] :: int VM)) \<le> STACK_MAX
   \<and> step test_ops (vm_at EQUAL [VNumber 1, VString ''1''])
       = (Inr None, (vm_at EQUAL [VNumber 1, VString ''1''])\<lparr>pos := 1, stack := [VBool False]\<rparr>)
   \<and> step test_ops (vm_at EQUAL [VNumber 2, VNumber 2])
       = (Inr None, (vm_at EQUAL [VNumber 2, VNumber 2])\<lparr>pos := 1, stack := [VBool True]\<rparr>)"
  using EQUAL_contract [of "vm_at EQUAL [VNumber 1, VString ''1'']" "VNumber 1" "VString ''1''" "[]" test_ops]
        EQUAL_contract [of "vm_at EQUAL [VNumber 2, VNumber 2]" "VNumber 2" "VNumber 2" "[]" test_ops]
  by (simp add: vm_at_def one_op_def new_VM_def STACK_MAX_def test_ops_def)

section \<open>The order of the operands\<close>

text \<open>
  Claim C9: for \<open>SUBTRACT\<close>, \<open>DIVIDE\<close>, \<open>GREATER\<close> and \<open>LESS\<close> on two numbers the
  top of the stack is the right operand and the value below it the left one: the
  results are \<open>left - right\<close>, \<open>left / right\<close>, \<open>left > right\<close> and
  \<open>left < right\<close>.
\<close>

theorem binary_operand_order:
  assumes at: "pos vm < length (code (mChunk vm))"
      and st: "stack vm = VNumber right # VNumber left # rest"
      and room: "length (stack vm) \<le> STACK_MAX"
  shows "(code (mChunk vm) ! pos vm = opcode_byte SUBTRACT \<longrightarrow>
            step ops vm
              = (Inr None, vm\<lparr>pos := pos vm + 1, stack := VNumber (fsub ops left right) # rest\<rparr>))
       \<and> (code (mChunk vm) ! pos vm = opcode_byte DIVIDE \<longrightarrow>
            step ops vm
              = (Inr None, vm\<lparr>pos := pos vm + 1, stack := VNumber (fdiv ops left right) # rest\<rparr>))
       \<and> (code (mChunk vm) ! pos vm = opcode_byte GREATER \<longrightarrow>
            step ops vm
              = (Inr None, vm\<lparr>pos := pos vm + 1, stack := VBool (fgreater ops left right) # rest\<rparr>))
       \<and> (code (mChunk vm) ! pos vm = opcode_byte LESS \<longrightarrow>
            step ops vm
              = (Inr None, vm\<lparr>pos := pos vm + 1, stack := VBool (fless ops left right) # rest\<rparr>))"
  using st room
  by (simp add: step_def vm_bind_def readByte_at [OF at] opcode_of_def
        BINARY_OP_numbers [where r = right and l = left and rest = rest])

text \<open>
  Witness for C9, with 5 (or 7) pushed before 3: \<open>5 - 3 = 2\<close>, the integer quotient of 7
  by 3 is 2, \<open>5 > 3\<close> holds and \<open>5 < 3\<close> does not.
\<close>

theorem binary_operand_order_witness:
  "pos (vm_at SUBTRACT [VNumber 3, VNumber 5] :: int VM)
      < length (code (mChunk (vm_at SUBTRACT [VNumber 3, VNumber 5] :: int VM)))
   \<and> length (stack (vm_at SUBTRACT [VNumber 3, VNumber 5] :: int VM)) \<le> STACK_MAX
   \<and> step test_ops (vm_at SUBTRACT [VNumber 3, VNumber 5])
       = (Inr None, (vm_at SUBTRACT [VNumber 3, VNumber 5])\<lparr>pos := 1, stack := [VNumber 2]\<rparr>)
   \<and> step test_ops (vm_at DIVIDE [VNumber 3, VNumber 7])
       = (Inr None, (vm_at DIVIDE [VNumber 3, VNumber 7])\<lparr>pos := 1, stack := [VNumber 2]\<rparr>)
   \<and> step test_ops (vm_at GREATER [VNumber 3, VNumber 5])
       = (Inr None, (vm_at GREATER [VNumber 3, VNumber 5])\<lparr>pos := 1, stack := [VBool True]\<rparr>)
   \<and> step test_ops (vm_at LESS [VNumber 3, VNumber 5])
       = (Inr None, (vm_at LESS [VNumber 3, VNumber 5])\<lparr>pos := 1, stack := [VBool False]\<rparr>)"
  using binary_operand_order [of "vm_at SUBTRACT [VNumber 3, VNumber 5]" 3 5 "[]" test_ops]
        binary_operand_order [of "vm_at DIVIDE [VNumber 3, VNumber 7]" 3 7 "[]" test_ops]
        binary_operand_order [of "vm_at GREATER [VNumber 3, VNumber 5]" 3 5 "[]" test_ops]
        binary_operand_order [of "vm_at LESS [VNumber 3, VNumber 5]" 3 5 "[]" test_ops]
  by (simp add: vm_at_def one_op_def new_VM_def STACK_MAX_def test_ops_def)

section \<open>A compilation that fails\<close>

text \<open>
  Claim C10: when the compilation of a source text fails, \<open>interpret\<close> returns
  \<open>COMPILE_ERROR\<close> and executes no bytecode: the globals and \<open>std::cout\<close> are as
  before the call, and so are the stack, the position and the chunk of the machine.
  This holds for every bound on the depth of calls that is at least one within which
  \<open>compile\<close> returns false.
\<close>

theorem compile_failure_is_COMPILE_ERROR:
  assumes "compile n ops source emptyChunk (cu vm) = Ok (False, c)" and "n \<le> m"
  shows "\<exists>vm1. interpret_source m ops source vm = Some (Inr COMPILE_ERROR, vm1)
           \<and> globals vm1 = globals vm \<and> cout vm1 = cout vm
           \<and> stack vm1 = stack vm \<and> pos vm1 = pos vm \<and> mChunk vm1 = mChunk vm
           \<and> cu vm1 = c"
  using compile_Ok_mono [OF assms] by (simp add: interpret_source_def)

text \<open>Witness for C10: the source text \<open>)\<close>, whose compilation fails.\<close>

theorem compile_failure_is_COMPILE_ERROR_witness:
  "\<exists>c vm1. compile 10 test_ops src_paren emptyChunk (cu (new_VM :: int VM)) = Ok (False, c)
     \<and> (10 :: nat) \<le> 20
     \<and> interpret_source 20 test_ops src_paren (new_VM :: int VM) = Some (Inr COMPILE_ERROR, vm1)
     \<and> globals vm1 = Map.empty \<and> cout vm1 = [] \<and> cu vm1 = c"
proof -
  obtain c where c: "compile 10 test_ops src_paren emptyChunk (cu (new_VM :: int VM)) = Ok (False, c)"
    using compile_src_paren by blast
  have le: "(10 :: nat) \<le> 20" by simp
  from compile_failure_is_COMPILE_ERROR [OF c le] c show ?thesis
    by (auto simp: new_VM_def)
qed

end
